theory Spec2Isabelle
  imports Complex_Main "HOL-Library.AList"
begin

section \<open>Strings\<close>

text \<open>
  A Python \<open>str\<close> is modelled as a \<open>string\<close>; one \<open>char\<close> stands for one code point
  (so the model covers the code points below 256, and \<open>length\<close> counts code points as
  Python's \<open>len\<close> and slices do). An exception is represented by its message \<open>str(e)\<close>,
  and a computation that may raise has the type \<open>string + 'a\<close> with \<open>Inl\<close> the raise.
\<close>

text \<open>\<open>if s:\<close> for a string, and for a value that is a string or \<open>None\<close>.\<close>

definition truthy :: "string \<Rightarrow> bool" where
  "truthy s = (s \<noteq> [])"

fun truthy_opt :: "string option \<Rightarrow> bool" where
  "truthy_opt None = False"
| "truthy_opt (Some s) = truthy s"

text \<open>\<open>a or b\<close> where \<open>a\<close> is a string or \<open>None\<close> and \<open>b\<close> is a string.\<close>

fun or_else :: "string option \<Rightarrow> string \<Rightarrow> string" where
  "or_else None d = d"
| "or_else (Some s) d = (if truthy s then s else d)"

text \<open>\<open>str.lower\<close> on the code points below 256: A-Z and the Latin-1 capitals.\<close>

definition lower_char :: "char \<Rightarrow> char" where
  "lower_char c =
     (let n = (of_char c :: nat) in
      if (65 \<le> n \<and> n \<le> 90) \<or> (192 \<le> n \<and> n \<le> 222 \<and> n \<noteq> 215)
      then char_of (n + 32) else c)"

definition lower :: "string \<Rightarrow> string" where
  "lower s = map lower_char s"

text \<open>\<open>sub in s\<close> for strings.\<close>

fun starts_with :: "string \<Rightarrow> string \<Rightarrow> bool" where
  "starts_with [] s = True"
| "starts_with (p # ps) [] = False"
| "starts_with (p # ps) (c # cs) = (p = c \<and> starts_with ps cs)"

fun str_in :: "string \<Rightarrow> string \<Rightarrow> bool" where
  "str_in sub [] = (sub = [])"
| "str_in sub (c # cs) = (starts_with sub (c # cs) \<or> str_in sub cs)"

text \<open>\<open>str.isspace\<close> of one code point below 256, and \<open>str.strip()\<close>.\<close>

definition isspace :: "char \<Rightarrow> bool" where
  "isspace c =
     (let n = (of_char c :: nat) in
      (9 \<le> n \<and> n \<le> 13) \<or> (28 \<le> n \<and> n \<le> 32) \<or> n = 133 \<or> n = 160)"

definition strip :: "string \<Rightarrow> string" where
  "strip s = rev (dropWhile isspace (rev (dropWhile isspace s)))"

text \<open>\<open>s.split(sep)\<close> for a one-character separator: never an empty list.\<close>

fun split_on :: "char \<Rightarrow> string \<Rightarrow> string list" where
  "split_on sep [] = [[]]"
| "split_on sep (c # cs) =
     (if c = sep then [] # split_on sep cs
      else (case split_on sep cs of
              [] \<Rightarrow> [[c]]
            | w # ws \<Rightarrow> (c # w) # ws))"

text \<open>
  The path component of a request URL built by interpolating \<open>s\<close> after the host and
  path prefix: a \<open>?\<close> starts the query and a \<open>#\<close> the fragment, so the server is asked
  for what stands before the first of them. (Percent escapes and dot segments are not
  resolved.)
\<close>

definition request_path :: "string \<Rightarrow> string" where
  "request_path s = takeWhile (\<lambda>c. c \<noteq> CHR ''?'' \<and> c \<noteq> CHR ''#'') s"

text \<open>\<open>sep.join(parts)\<close>.\<close>

fun join :: "string \<Rightarrow> string list \<Rightarrow> string" where
  "join sep [] = []"
| "join sep [p] = p"
| "join sep (p # q # ps) = p @ sep @ join sep (q # ps)"

section \<open>The environment\<close>

text \<open>
  An HTTP request made with \<open>requests\<close> either raises, or returns a response with a
  status code, a body text and the decoded JSON body.
\<close>

datatype 'a response = Raises string | Response nat string 'a

text \<open>Instants of time; only their order is used (\<open>video_date > after_date\<close>).\<close>

type_synonym timestamp = int

subsection \<open>The video listing API\<close>

record playlist_item =
  pi_publishedAt :: timestamp
  pi_videoId :: string
  pi_title :: string
  pi_channelTitle :: string
  pi_channelId :: "string option"

record playlist_page =
  pg_items :: "playlist_item list"
  pg_nextPageToken :: "string option"

subsection \<open>The transcript API\<close>

text \<open>
  \<open>YouTubeTranscriptApi().list(video_id)\<close> returns a transcript list holding the manually
  created and the generated transcripts, each keyed by language code; \<open>fetch()\<close> of a
  transcript is a further request that returns its snippets or raises.
\<close>

record snippet =
  sn_text :: string
  sn_start :: real

record transcript =
  t_language :: string
  t_language_code :: string
  t_fetch :: "string + snippet list"

record transcript_list =
  tl_manual :: "transcript list"
  tl_generated :: "transcript list"

fun lookup_code :: "string \<Rightarrow> transcript list \<Rightarrow> transcript option" where
  "lookup_code c [] = None"
| "lookup_code c (t # ts) = (if t_language_code t = c then Some t else lookup_code c ts)"

fun first_dict :: "string \<Rightarrow> transcript list list \<Rightarrow> transcript option" where
  "first_dict c [] = None"
| "first_dict c (d # ds) =
     (case lookup_code c d of Some t \<Rightarrow> Some t | None \<Rightarrow> first_dict c ds)"

text \<open>The library's lookup: \<open>None\<close> stands for its \<open>NoTranscriptFound\<close>.\<close>

fun find_in_dicts :: "string list \<Rightarrow> transcript list list \<Rightarrow> transcript option" where
  "find_in_dicts [] dicts = None"
| "find_in_dicts (c # cs) dicts =
     (case first_dict c dicts of Some t \<Rightarrow> Some t | None \<Rightarrow> find_in_dicts cs dicts)"

definition find_manually_created_transcript :: "transcript_list \<Rightarrow> string list \<Rightarrow> transcript option" where
  "find_manually_created_transcript tlist codes = find_in_dicts codes [tl_manual tlist]"

definition find_generated_transcript :: "transcript_list \<Rightarrow> string list \<Rightarrow> transcript option" where
  "find_generated_transcript tlist codes = find_in_dicts codes [tl_generated tlist]"

definition find_transcript :: "transcript_list \<Rightarrow> string list \<Rightarrow> transcript option" where
  "find_transcript tlist codes = find_in_dicts codes [tl_manual tlist, tl_generated tlist]"

text \<open>\<open>list(transcript_list)\<close>: the manual transcripts, then the generated ones.\<close>

definition available_transcripts :: "transcript_list \<Rightarrow> transcript list" where
  "available_transcripts tlist = tl_manual tlist @ tl_generated tlist"

subsection \<open>Stored records\<close>

text \<open>
  The metadata dictionary that \<open>download_transcript\<close> builds, and the JSON document that
  \<open>save_transcript\<close> writes. A publish date is kept as the instant; \<open>None\<close> stands for
  the empty string that \<open>published_at or ""\<close> gives.
\<close>

record metadata =
  md_transcript_type :: string
  md_duration :: real
  md_channel_id :: string
  md_published_at :: "timestamp option"

record stored =
  st_video_id :: string
  st_channel_id :: string
  st_title :: string
  st_channel :: string
  st_published_at :: "timestamp option"
  st_downloaded_at :: string
  st_transcript :: string
  st_metadata :: metadata

subsection \<open>The configuration of a run\<close>

text \<open>
  The dictionary \<open>run_download\<close> receives. For the keys read with a default and then
  tested for truth, \<open>None\<close> is an absent key or the value \<open>None\<close>, which behave alike
  (the folder of the summary is then reported as the empty string). The delay goes
  through \<open>float(config.get('delay', 3.0))\<close>, which tells them apart: the key is absent,
  or holds \<open>None\<close>, a number or a text.
\<close>

datatype delay_setting = DelayAbsent | DelayNone | DelayNumber real | DelayText string

record config =
  c_api_key :: "string option"
  c_channel :: "string option"
  c_video_ids :: "string option"
  c_after_date :: "string option"
  c_folder :: "string option"
  c_delay :: delay_setting
  c_limit :: "int option"

subsection \<open>Observable effects\<close>

text \<open>
  The effects a run leaves behind, in order: calls of the pipeline's entry points, the
  transcript tiers tried, the requests to the storage host, and the sleeps.
\<close>

datatype event =
    RunDownload config
  | DownloadTranscript string string
  | Tier nat
  | SearchCode string
  | PutContents string stored
  | Sleep real

text \<open>A fault injected into a request to the storage host's contents API.\<close>

datatype fault = NetworkError string | HttpError nat string

subsection \<open>The world\<close>

text \<open>
  Everything outside the process. The repository contents \<open>gh_files\<close> and the effect log
  \<open>w_log\<close> change during a run; the rest are the answers the remote services and the
  process environment give.
\<close>

record world =
  yt_search :: "string \<Rightarrow> string \<Rightarrow> string list response"
  yt_channel_info :: "string \<Rightarrow> string \<Rightarrow> string list response"
  yt_uploads :: "string \<Rightarrow> string \<Rightarrow> string list response"
  yt_playlist_items :: "string \<Rightarrow> string \<Rightarrow> string option \<Rightarrow> playlist_page response"
  ta_list :: "string \<Rightarrow> string + transcript_list"
  gh_files :: "string \<rightharpoonup> stored"
  gh_search :: "string \<Rightarrow> string list response"
  gh_get_fault :: "string \<Rightarrow> fault option"
  gh_put_fault :: "string \<Rightarrow> fault option"
  gh_blob_sha :: "stored \<Rightarrow> string"
  gh_html_url :: "string \<Rightarrow> string"
  w_api_key :: "string option"
  w_now :: string
  w_today :: string
  w_strptime :: "string \<Rightarrow> string + timestamp"
  w_iso_to_ymd :: "string \<Rightarrow> string + string"
  w_md5 :: "string \<Rightarrow> string"
  w_float :: "string \<Rightarrow> string + real"
  w_log :: "event list"

definition emit :: "event \<Rightarrow> world \<Rightarrow> world" where
  "emit e w = w\<lparr>w_log := w_log w @ [e]\<rparr>"

text \<open>
  \<open>GET contents/path\<close> on the storage host, where \<open>path\<close> is the text the client puts
  into the URL: the injected fault if there is one, else the file that the URL's path
  component names with its blob hash, else 404.
\<close>

definition github_get :: "world \<Rightarrow> string \<Rightarrow> (string \<times> stored) option response" where
  "github_get w path =
     (case gh_get_fault w path of
        Some (NetworkError m) \<Rightarrow> Raises m
      | Some (HttpError st txt) \<Rightarrow> Response st txt None
      | None \<Rightarrow>
          (case gh_files w (request_path path) of
             Some f \<Rightarrow> Response 200 [] (Some (gh_blob_sha w f, f))
           | None \<Rightarrow> Response 404 ''Not Found'' None))"

text \<open>
  \<open>PUT contents/path\<close>, addressed as the \<open>GET\<close> is: the injected fault if there is one; else a new file is created
  (201), an existing one is replaced when the request carries its blob hash (200) and the
  request is refused otherwise (409 without a hash, 422 with a wrong one, and 422 for
  a hash given for a file that does not exist).
\<close>

definition github_put :: "string \<Rightarrow> string option \<Rightarrow> stored \<Rightarrow> world \<Rightarrow> string response \<times> world" where
  "github_put path sha content w0 =
     (let w = emit (PutContents path content) w0 in
      case gh_put_fault w path of
        Some (NetworkError m) \<Rightarrow> (Raises m, w)
      | Some (HttpError st txt) \<Rightarrow> (Response st txt [], w)
      | None \<Rightarrow>
          (case gh_files w (request_path path) of
             None \<Rightarrow>
               (if sha = None
                then (Response 201 [] (gh_html_url w (request_path path)),
                      w\<lparr>gh_files := (gh_files w)(request_path path \<mapsto> content)\<rparr>)
                else (Response 422 ''sha was supplied for a new file'' [], w))
           | Some old \<Rightarrow>
               (if sha = Some (gh_blob_sha w old)
                then (Response 200 [] (gh_html_url w (request_path path)),
                      w\<lparr>gh_files := (gh_files w)(request_path path \<mapsto> content)\<rparr>)
                else if sha = None then (Response 409 ''sha was not supplied'' [], w)
                else (Response 422 ''sha does not match'' [], w))))"

section \<open>The storage adapter (github_storage.py)\<close>

text \<open>\<open>_sanitize_name\<close>: \<open>re.sub(r'[<>:"/\\|?*@]', '', name)\<close>, \<open>replace(' ', '_')\<close>, \<open>[:100]\<close>.\<close>

definition invalid_chars :: "char list" where
  "invalid_chars = [CHR ''<'', CHR ''>'', CHR '':'', CHR 0x22, CHR ''/'', CHR 0x5C,
                    CHR ''|'', CHR ''?'', CHR ''*'', CHR ''@'']"

fun re_sub_invalid :: "string \<Rightarrow> string" where
  "re_sub_invalid [] = []"
| "re_sub_invalid (c # cs) =
     (if c \<in> set invalid_chars then re_sub_invalid cs else c # re_sub_invalid cs)"

fun replace_space :: "string \<Rightarrow> string" where
  "replace_space [] = []"
| "replace_space (c # cs) = (if c = CHR '' '' then CHR ''_'' else c) # replace_space cs"

definition sanitize_name :: "string \<Rightarrow> string" where
  "sanitize_name name = take 100 (replace_space (re_sub_invalid name))"

text \<open>
  \<open>check_transcript_exists\<close>: one request to the code search; anything but a 200 answer
  with at least one item, an exception included, is \<open>False\<close>.
\<close>

definition check_transcript_exists :: "string \<Rightarrow> world \<Rightarrow> bool \<times> world" where
  "check_transcript_exists video_id w0 =
     (let w = emit (SearchCode video_id) w0 in
      case gh_search w video_id of
        Raises e \<Rightarrow> (False, w)
      | Response status text results \<Rightarrow>
          (if status = 200 then length results > 0 else False, w))"

text \<open>\<open>_get_file_sha\<close>: the blob hash of the file at the path, or \<open>None\<close>; may raise.\<close>

definition get_file_sha :: "string \<Rightarrow> world \<Rightarrow> string + string option" where
  "get_file_sha file_path w =
     (case github_get w file_path of
        Raises e \<Rightarrow> Inl e
      | Response status text body \<Rightarrow>
          (if status = 200
           then (case body of
                   None \<Rightarrow> Inl ''KeyError: sha''
                 | Some (sha, f) \<Rightarrow> Inr (Some sha))
           else Inr None))"

text \<open>
  The three dictionaries \<open>save_transcript\<close> returns: the duplicate report, the success
  with path and url, and the failure with the response text.
\<close>

datatype save_result = SaveDuplicate | SaveOk string string | SaveError string

definition save_path :: "string \<Rightarrow> string \<Rightarrow> string \<Rightarrow> string" where
  "save_path channel_name video_id title =
     ''channels/'' @ sanitize_name channel_name @ ''/'' @ video_id @ ''_'' @ sanitize_name title @ ''.json''"

text \<open>The document written: the \<open>content\<close> dictionary of \<open>save_transcript\<close>.\<close>

definition document :: "string \<Rightarrow> string \<Rightarrow> string \<Rightarrow> string \<Rightarrow> metadata \<Rightarrow> world \<Rightarrow> stored" where
  "document channel_name video_id title transcript_text md w =
     \<lparr>st_video_id = video_id, st_channel_id = md_channel_id md,
      st_title = title, st_channel = channel_name,
      st_published_at = md_published_at md,
      st_downloaded_at = w_now w, st_transcript = transcript_text,
      st_metadata = md\<rparr>"

definition save_transcript ::
  "string \<Rightarrow> string \<Rightarrow> string \<Rightarrow> string \<Rightarrow> metadata option \<Rightarrow> world \<Rightarrow> (string + save_result) \<times> world" where
  "save_transcript channel_name video_id title transcript_text metadata w0 =
     (case check_transcript_exists video_id w0 of
        (True, w) \<Rightarrow> (Inr SaveDuplicate, w)
      | (False, w) \<Rightarrow>
          (let file_path = save_path channel_name video_id title in
           case metadata of
             None \<Rightarrow> (Inl ''NoneType object has no attribute get'', w)
           | Some md \<Rightarrow>
               (let content = document channel_name video_id title transcript_text md w
                in case get_file_sha file_path w of
                     Inl e \<Rightarrow> (Inl e, w)
                   | Inr existing_sha \<Rightarrow>
                       (case github_put file_path
                               (if truthy_opt existing_sha then existing_sha else None) content w of
                          (Raises e, w') \<Rightarrow> (Inl e, w')
                        | (Response status text url, w') \<Rightarrow>
                            (if status = 201 \<or> status = 200
                             then Inr (SaveOk file_path url)
                             else Inr (SaveError text), w')))))"

definition get_path :: "string \<Rightarrow> string \<Rightarrow> string" where
  "get_path channel_name title =
     ''channels/'' @ sanitize_name channel_name @ ''/'' @ sanitize_name title @ ''.json''"

text \<open>\<open>get_transcript\<close>: the decoded document at the path, or \<open>None\<close>; may raise.\<close>

definition get_transcript :: "string \<Rightarrow> string \<Rightarrow> world \<Rightarrow> string + stored option" where
  "get_transcript channel_name title w =
     (case github_get w (get_path channel_name title) of
        Raises e \<Rightarrow> Inl e
      | Response status text body \<Rightarrow>
          (if status = 200
           then (case body of
                   None \<Rightarrow> Inl ''KeyError: content''
                 | Some (sha, f) \<Rightarrow> Inr (Some f))
           else Inr None))"

section \<open>The download service (download_service.py)\<close>

text \<open>
  A candidate video, as the dictionaries \<open>run_download\<close> and
  \<open>get_video_ids_from_playlist\<close> build them; a directly named video has no
  \<open>channel_id\<close> and no \<open>date\<close> key.
\<close>

record video =
  v_id :: string
  v_title :: string
  v_channel :: string
  v_channel_id :: "string option"
  v_date :: "timestamp option"

text \<open>\<open>get_channel_id\<close>: the first channel of the search, or an exception.\<close>

definition get_channel_id :: "string \<Rightarrow> string \<Rightarrow> world \<Rightarrow> string + string" where
  "get_channel_id query api_key w =
     (case yt_search w query api_key of
        Raises e \<Rightarrow> Inl e
      | Response status text items \<Rightarrow>
          (if status \<noteq> 200 then Inl (''Error searching for channel: '' @ text)
           else (case items of
                   [] \<Rightarrow> Inl (''No channel found for query: '' @ query)
                 | channelId # _ \<Rightarrow> Inr channelId)))"

text \<open>\<open>get_channel_info\<close>: the channel's title, or \<open>"Unknown Channel"\<close>.\<close>

definition get_channel_info :: "string \<Rightarrow> string \<Rightarrow> world \<Rightarrow> string + string" where
  "get_channel_info channel_id api_key w =
     (case yt_channel_info w channel_id api_key of
        Raises e \<Rightarrow> Inl e
      | Response status text items \<Rightarrow>
          (if status = 200
           then (case items of [] \<Rightarrow> Inr ''Unknown Channel'' | title # _ \<Rightarrow> Inr title)
           else Inr ''Unknown Channel''))"

definition get_uploads_playlist_id :: "string \<Rightarrow> string \<Rightarrow> world \<Rightarrow> string + string" where
  "get_uploads_playlist_id channel_id api_key w =
     (case yt_uploads w channel_id api_key of
        Raises e \<Rightarrow> Inl e
      | Response status text items \<Rightarrow>
          (if status \<noteq> 200 then Inl (''Error fetching channel details: '' @ text)
           else (case items of
                   [] \<Rightarrow> Inl ''No channel details found.''
                 | uploads # _ \<Rightarrow> Inr uploads)))"

text \<open>\<open>if limit and len(video_data) >= limit\<close>.\<close>

definition limit_reached :: "int option \<Rightarrow> video list \<Rightarrow> bool" where
  "limit_reached limit video_data =
     (case limit of
        None \<Rightarrow> False
      | Some n \<Rightarrow> n \<noteq> 0 \<and> int (length video_data) \<ge> n)"

definition passes_filter :: "timestamp option \<Rightarrow> playlist_item \<Rightarrow> bool" where
  "passes_filter after_date item =
     (case after_date of
        None \<Rightarrow> True
      | Some t \<Rightarrow> pi_publishedAt item > t)"

definition video_of_item :: "string option \<Rightarrow> playlist_item \<Rightarrow> video" where
  "video_of_item channel_id item =
     \<lparr>v_id = pi_videoId item, v_title = pi_title item, v_channel = pi_channelTitle item,
      v_channel_id = Some (or_else channel_id (or_else (pi_channelId item) [])),
      v_date = Some (pi_publishedAt item)\<rparr>"

text \<open>
  The \<open>for item in data.get("items", [])\<close> loop of one page: it either returns from the
  function because the limit is reached, or falls through to the page token.
\<close>

datatype scan = Return "video list" | Continue "video list"

fun scan_items :: "string option \<Rightarrow> timestamp option \<Rightarrow> int option \<Rightarrow> playlist_item list \<Rightarrow> video list \<Rightarrow> scan" where
  "scan_items channel_id after_date limit [] video_data = Continue video_data"
| "scan_items channel_id after_date limit (item # items) video_data =
     (if passes_filter after_date item
      then (let video_data' = video_data @ [video_of_item channel_id item] in
            if limit_reached limit video_data' then Return video_data'
            else scan_items channel_id after_date limit items video_data')
      else scan_items channel_id after_date limit items video_data)"

text \<open>
  The \<open>while True\<close> loop of \<open>get_video_ids_from_playlist\<close>. It ends only when a page
  comes without a token, the limit is reached or a request fails, so it is a partial
  function: \<open>None\<close> is a loop that never returns. The second component counts the
  page requests made.
\<close>

partial_function (option) playlist_loop ::
  "world \<Rightarrow> string \<Rightarrow> string \<Rightarrow> string option \<Rightarrow> timestamp option \<Rightarrow> int option \<Rightarrow>
   string option \<Rightarrow> video list \<Rightarrow> nat \<Rightarrow> ((string + video list) \<times> nat) option" where
  "playlist_loop w playlist_id api_key channel_id after_date limit next_page_token video_data reqs =
     (case yt_playlist_items w playlist_id api_key
             (if truthy_opt next_page_token then next_page_token else None) of
        Raises e \<Rightarrow> Some (Inl e, Suc reqs)
      | Response status text data \<Rightarrow>
          (if status \<noteq> 200 then Some (Inl (''Error fetching playlist items: '' @ text), Suc reqs)
           else (case scan_items channel_id after_date limit (pg_items data) video_data of
                   Return vd \<Rightarrow> Some (Inr vd, Suc reqs)
                 | Continue vd \<Rightarrow>
                     (if truthy_opt (pg_nextPageToken data)
                      then playlist_loop w playlist_id api_key channel_id after_date limit
                             (pg_nextPageToken data) vd (Suc reqs)
                      else Some (Inr vd, Suc reqs)))))"

definition get_video_ids_from_playlist ::
  "string \<Rightarrow> string \<Rightarrow> string option \<Rightarrow> timestamp option \<Rightarrow> int option \<Rightarrow> world \<Rightarrow>
   ((string + video list) \<times> nat) option" where
  "get_video_ids_from_playlist playlist_id api_key channel_id after_date limit w =
     playlist_loop w playlist_id api_key channel_id after_date limit None [] 0"

text \<open>
  The nested \<open>try\<close> of \<open>download_transcript\<close> that picks a transcript: each tier looks a
  transcript up and fetches it, and any exception moves on to the next tier. The fourth
  tier returns from the function when nothing is available or its fetch raises.
\<close>

datatype pick = Picked "snippet list" string | GiveUp string

definition attempt :: "transcript option \<Rightarrow> snippet list option" where
  "attempt found =
     (case found of
        None \<Rightarrow> None
      | Some t \<Rightarrow> (case t_fetch t of Inl e \<Rightarrow> None | Inr snippets \<Rightarrow> Some snippets))"

definition select_transcript :: "transcript_list \<Rightarrow> world \<Rightarrow> pick \<times> world" where
  "select_transcript transcript_list w0 =
     (let w1 = emit (Tier 1) w0 in
      case attempt (find_manually_created_transcript transcript_list [''en'']) of
        Some transcript \<Rightarrow> (Picked transcript ''manual'', w1)
      | None \<Rightarrow>
          (let w2 = emit (Tier 2) w1 in
           case attempt (find_generated_transcript transcript_list [''en'']) of
             Some transcript \<Rightarrow> (Picked transcript ''auto-generated'', w2)
           | None \<Rightarrow>
               (let w3 = emit (Tier 3) w2 in
                case attempt (find_transcript transcript_list [''en'']) of
                  Some transcript \<Rightarrow> (Picked transcript ''unknown'', w3)
                | None \<Rightarrow>
                    (let w4 = emit (Tier 4) w3 in
                     case available_transcripts transcript_list of
                       [] \<Rightarrow> (GiveUp ''No transcripts available in any language'', w4)
                     | first # _ \<Rightarrow>
                         (case t_fetch first of
                            Inl e \<Rightarrow> (GiveUp (''Cannot fetch transcript: '' @ take 200 e), w4)
                          | Inr transcript \<Rightarrow>
                              (Picked transcript (''auto ('' @ t_language first @ '')''), w4))))))"

text \<open>The message for an exception of \<open>api.list\<close>.\<close>

definition list_failure :: "string \<Rightarrow> string \<Rightarrow> string" where
  "list_failure video_id error_msg =
     (if str_in ''Could not retrieve'' error_msg
      then ''No transcript available for this video (ID: '' @ video_id @ '')''
      else if str_in ''Too Many Requests'' error_msg
      then ''YouTube rate limit reached - please wait a few minutes''
      else ''Failed to fetch transcript: '' @ take 200 error_msg)"

text \<open>The message of the outermost \<open>except\<close>.\<close>

definition unexpected_failure :: "string \<Rightarrow> string \<Rightarrow> string" where
  "unexpected_failure video_id error_msg =
     (if str_in ''429'' error_msg \<or> str_in ''rate'' (lower error_msg)
      then ''Rate limited - please wait before retrying''
      else if str_in ''404'' error_msg
      then ''Video not found (ID: '' @ video_id @ '')''
      else if str_in ''403'' error_msg
      then ''Access forbidden - video may be private or restricted''
      else ''Unexpected error: '' @ take 200 error_msg)"

definition duplicate_message :: string where
  "duplicate_message = ''Transcript already exists (duplicate)''"

definition download_transcript ::
  "string \<Rightarrow> string \<Rightarrow> string option \<Rightarrow> string option \<Rightarrow> timestamp option \<Rightarrow> world \<Rightarrow>
   (bool \<times> string) \<times> world" where
  "download_transcript video_id title channel_name channel_id published_at w0 =
     (case check_transcript_exists video_id (emit (DownloadTranscript video_id title) w0) of
        (True, w1) \<Rightarrow> ((False, duplicate_message), w1)
      | (False, w1) \<Rightarrow>
          (case ta_list w1 video_id of
             Inl error_msg \<Rightarrow> ((False, list_failure video_id error_msg), w1)
           | Inr transcript_list \<Rightarrow>
               (case select_transcript transcript_list w1 of
                  (GiveUp msg, w2) \<Rightarrow> ((False, msg), w2)
                | (Picked transcript transcript_type, w2) \<Rightarrow>
                    (if transcript = [] then ((False, ''No transcript content found''), w2)
                     else
                       (let full_text = join [CHR 0x0A] (map sn_text transcript);
                            metadata = \<lparr>md_transcript_type = transcript_type,
                                        md_duration = sn_start (last transcript),
                                        md_channel_id = or_else channel_id [],
                                        md_published_at = published_at\<rparr>
                        in case save_transcript (or_else channel_name ''Unknown_Channel'') video_id
                                  title full_text (Some metadata) w2 of
                             (Inl error_msg, w3) \<Rightarrow> ((False, unexpected_failure video_id error_msg), w3)
                           | (Inr SaveDuplicate, w3) \<Rightarrow> ((False, duplicate_message), w3)
                           | (Inr (SaveOk path url), w3) \<Rightarrow> ((True, url), w3)
                           | (Inr (SaveError error), w3) \<Rightarrow>
                               ((False,
                                 if str_in ''rate limit'' (lower error)
                                 then ''GitHub API rate limit reached - please wait before retrying''
                                 else ''GitHub save failed: '' @ take 200 error), w3))))))"

text \<open>
  \<open>time.sleep(delay)\<close>: a negative length raises \<open>ValueError\<close>, and a length that does not
  fit the interpreter's time type, a signed 64-bit count of nanoseconds, raises
  \<open>OverflowError\<close>.
\<close>

definition sleep :: "real \<Rightarrow> world \<Rightarrow> string + world" where
  "sleep delay w =
     (if delay < 0 then Inl ''sleep length must be non-negative''
      else if 2 ^ 63 \<le> delay * 10 ^ 9 then Inl ''timestamp too large to convert to C _PyTime_t''
      else Inr (emit (Sleep delay) w))"

text \<open>The per-video result and the counters of the download loop.\<close>

record video_result =
  vr_video_id :: string
  vr_title :: string
  vr_success :: bool
  vr_result :: string

record tally =
  success_count :: nat
  failed_count :: nat
  duplicate_count :: nat
  results :: "video_result list"

definition record_outcome :: "video \<Rightarrow> bool \<Rightarrow> string \<Rightarrow> tally \<Rightarrow> tally" where
  "record_outcome video success result t =
     (let video_result = \<lparr>vr_video_id = v_id video, vr_title = v_title video,
                           vr_success = success, vr_result = result\<rparr> in
      if success
      then t\<lparr>success_count := success_count t + 1, results := results t @ [video_result]\<rparr>
      else if str_in ''duplicate'' (lower result)
      then t\<lparr>failed_count := failed_count t + 1, duplicate_count := duplicate_count t + 1,
             results := results t @ [video_result]\<rparr>
      else t\<lparr>failed_count := failed_count t + 1, results := results t @ [video_result]\<rparr>)"

text \<open>
  The \<open>for i, video in enumerate(videos_to_download)\<close> loop; \<open>i < len - 1\<close> holds exactly
  when videos remain. An exception of \<open>time.sleep\<close> leaves the loop.
\<close>

fun download_each :: "real \<Rightarrow> video list \<Rightarrow> tally \<Rightarrow> world \<Rightarrow> (string + tally) \<times> world" where
  "download_each delay [] t w = (Inr t, w)"
| "download_each delay (video # rest) t w =
     (case download_transcript (v_id video) (v_title video) (Some (v_channel video))
             (v_channel_id video) (v_date video) w of
        ((success, result), w1) \<Rightarrow>
          (if rest \<noteq> []
           then (case sleep delay w1 of
                   Inl e \<Rightarrow> (Inl e, w1)
                 | Inr w2 \<Rightarrow> download_each delay rest (record_outcome video success result t) w2)
           else download_each delay rest (record_outcome video success result t) w1))"

record summary =
  sm_total_videos :: nat
  sm_total_downloads :: nat
  sm_success_count :: nat
  sm_failed_count :: nat
  sm_duplicate_count :: nat
  sm_folder :: string
  sm_results :: "video_result list"

datatype run_result = RunFailed string | RunOk summary

text \<open>The candidate videos and the folder name: the \<open>if video_ids: ... elif channel:\<close> part.\<close>

definition direct_videos :: "string \<Rightarrow> string \<Rightarrow> video list" where
  "direct_videos video_ids folder_name =
     map (\<lambda>vid. \<lparr>v_id = vid, v_title = ''video_'' @ vid,
                  v_channel = (if truthy folder_name then folder_name else ''Direct_Downloads''),
                  v_channel_id = None, v_date = None\<rparr>)
         (map strip (split_on (CHR '','') video_ids))"

definition channel_videos ::
  "string \<Rightarrow> string \<Rightarrow> string \<Rightarrow> timestamp option \<Rightarrow> int option \<Rightarrow> world \<Rightarrow>
   (string + video list \<times> string) option" where
  "channel_videos channel folder_name api_key after_date_obj limit w =
     (case get_channel_id channel api_key w of
        Inl e \<Rightarrow> Some (Inl e)
      | Inr channel_id \<Rightarrow>
          (case get_channel_info channel_id api_key w of
             Inl e \<Rightarrow> Some (Inl e)
           | Inr info \<Rightarrow>
               (let channel_name = (if truthy info then info else channel);
                    folder_name' = (if \<not> truthy folder_name then channel_name else folder_name)
                in case get_uploads_playlist_id channel_id api_key w of
                     Inl e \<Rightarrow> Some (Inl e)
                   | Inr playlist_id \<Rightarrow>
                       (case get_video_ids_from_playlist playlist_id api_key (Some channel_id)
                               after_date_obj limit w of
                          None \<Rightarrow> None
                        | Some (Inl e, reqs) \<Rightarrow> Some (Inl e)
                        | Some (Inr videos, reqs) \<Rightarrow>
                            Some (Inr (map (\<lambda>v. v\<lparr>v_channel := folder_name'\<rparr>) videos, folder_name'))))))"

definition select_videos ::
  "config \<Rightarrow> string \<Rightarrow> timestamp option \<Rightarrow> world \<Rightarrow> (string + video list \<times> string) option" where
  "select_videos config api_key after_date_obj w =
     (let channel = (case c_channel config of None \<Rightarrow> [] | Some c \<Rightarrow> c);
          video_ids = (case c_video_ids config of None \<Rightarrow> [] | Some v \<Rightarrow> v);
          folder_name = (case c_folder config of None \<Rightarrow> [] | Some f \<Rightarrow> f) in
      if truthy video_ids then Some (Inr (direct_videos video_ids folder_name, folder_name))
      else if truthy channel
      then channel_videos channel folder_name api_key after_date_obj (c_limit config) w
      else Some (Inr ([], folder_name)))"

text \<open>\<open>datetime.strptime(after_date, '%Y-%m-%d')\<close> when a date is given.\<close>

definition parse_after_date :: "config \<Rightarrow> world \<Rightarrow> string + timestamp option" where
  "parse_after_date config w =
     (case c_after_date config of
        None \<Rightarrow> Inr None
      | Some after_date \<Rightarrow>
          (if truthy after_date
           then (case w_strptime w after_date of Inl e \<Rightarrow> Inl e | Inr t \<Rightarrow> Inr (Some t))
           else Inr None))"

text \<open>\<open>float(config.get('delay', 3.0))\<close>.\<close>

definition read_delay :: "config \<Rightarrow> world \<Rightarrow> string + real" where
  "read_delay config w =
     (case c_delay config of
        DelayAbsent \<Rightarrow> Inr 3
      | DelayNone \<Rightarrow> Inl ''float() argument must be a string or a real number, not NoneType''
      | DelayNumber d \<Rightarrow> Inr d
      | DelayText s \<Rightarrow> w_float w s)"

definition empty_tally :: tally where
  "empty_tally = \<lparr>success_count = 0, failed_count = 0, duplicate_count = 0, results = []\<rparr>"

text \<open>
  \<open>run_download\<close>: every exception inside it becomes the failure dictionary. \<open>None\<close> is a
  run whose playlist listing never returns.
\<close>

definition run_download :: "config \<Rightarrow> world \<Rightarrow> (run_result \<times> world) option" where
  "run_download config w0 =
     (let w = emit (RunDownload config) w0;
          api_key = or_else (c_api_key config) (or_else (w_api_key w) []) in
      if \<not> truthy api_key then Some (RunFailed ''No API key available'', w)
      else
        (case read_delay config w of
           Inl e \<Rightarrow> Some (RunFailed e, w)
         | Inr delay \<Rightarrow>
             (case parse_after_date config w of
                Inl e \<Rightarrow> Some (RunFailed e, w)
              | Inr after_date_obj \<Rightarrow>
                  (case select_videos config api_key after_date_obj w of
                     None \<Rightarrow> None
                   | Some (Inl e) \<Rightarrow> Some (RunFailed e, w)
                   | Some (Inr (videos_to_download, folder_name)) \<Rightarrow>
                       (case download_each delay videos_to_download empty_tally w of
                          (Inl e, w') \<Rightarrow> Some (RunFailed e, w')
                        | (Inr t, w') \<Rightarrow>
                            Some (RunOk \<lparr>sm_total_videos = length videos_to_download,
                                          sm_total_downloads = success_count t,
                                          sm_success_count = success_count t,
                                          sm_failed_count = failed_count t,
                                          sm_duplicate_count = duplicate_count t,
                                          sm_folder = folder_name,
                                          sm_results = results t\<rparr>, w'))))))"

section \<open>The scheduler (scheduler.py)\<close>

record job =
  j_id :: string
  j_name :: string
  j_channels :: "string list"
  j_frequency :: string
  j_start_date :: string
  j_folder_prefix :: string
  j_created_at :: string
  j_last_run :: "string option"
  j_status :: string
  j_total_downloads :: nat
  j_last_error :: "string option"

text \<open>
  The triggers given to the timer library: \<open>CronTrigger(day, day_of_week, hour, minute)\<close>
  and the one-shot \<open>'date'\<close> trigger, whose run date is 30 seconds after the instant held.
\<close>

datatype trigger = CronTrigger "nat option" "nat option" nat nat | DateTrigger string

datatype task = ScheduledDownload string | CatchupDownload string

record timer_job =
  tj_task :: task
  tj_trigger :: trigger
  tj_name :: string

text \<open>
  The scheduler object: the job dictionary (a Python dictionary keeps insertion order),
  the \<open>running\<close> flag, the timer library's job store, and the jobs file on disk with
  whether writing it succeeds.
\<close>

record scheduler =
  sc_jobs :: "(string \<times> job) list"
  sc_running :: bool
  sc_timer :: "(string \<times> timer_job) list"
  sc_file :: "(string \<times> job) list option"
  sc_disk_ok :: bool

text \<open>\<open>_save_jobs\<close>: a failed write is printed and otherwise ignored.\<close>

definition save_jobs :: "scheduler \<Rightarrow> scheduler" where
  "save_jobs s = (if sc_disk_ok s then s\<lparr>sc_file := Some (sc_jobs s)\<rparr> else s)"

definition generate_job_id :: "string \<Rightarrow> string list \<Rightarrow> string \<Rightarrow> world \<Rightarrow> string" where
  "generate_job_id name channels frequency w =
     take 12 (w_md5 w (name @ ''_'' @ join '','' channels @ ''_'' @ frequency @ ''_'' @ w_now w))"

definition get_cron_trigger :: "string \<Rightarrow> string + trigger" where
  "get_cron_trigger frequency =
     (if frequency = ''daily'' then Inr (CronTrigger None None 0 0)
      else if frequency = ''weekly'' then Inr (CronTrigger None (Some 0) 0 0)
      else if frequency = ''monthly'' then Inr (CronTrigger (Some 1) None 0 0)
      else Inl (''Unsupported frequency: '' @ frequency))"

definition add_job_to_scheduler :: "job \<Rightarrow> scheduler \<Rightarrow> string + scheduler" where
  "add_job_to_scheduler job_config s =
     (case get_cron_trigger (j_frequency job_config) of
        Inl e \<Rightarrow> Inl e
      | Inr trigger \<Rightarrow>
          Inr (s\<lparr>sc_timer := AList.update (j_id job_config)
                    \<lparr>tj_task = ScheduledDownload (j_id job_config), tj_trigger = trigger,
                     tj_name = j_name job_config\<rparr> (sc_timer s)\<rparr>))"

definition schedule_catchup_run :: "job \<Rightarrow> world \<Rightarrow> scheduler \<Rightarrow> scheduler" where
  "schedule_catchup_run job_config w s =
     s\<lparr>sc_timer := AList.update (''catchup_'' @ j_id job_config)
          \<lparr>tj_task = CatchupDownload (j_id job_config), tj_trigger = DateTrigger (w_now w),
           tj_name = ''Catchup: '' @ j_name job_config\<rparr> (sc_timer s)\<rparr>"

text \<open>The two dictionaries \<open>add_scheduled_job\<close> returns.\<close>

datatype add_result = AddOk string string | AddFailed string

definition add_scheduled_job ::
  "string \<Rightarrow> string list \<Rightarrow> string \<Rightarrow> string option \<Rightarrow> string \<Rightarrow> world \<Rightarrow> scheduler \<Rightarrow>
   add_result \<times> scheduler" where
  "add_scheduled_job name channels frequency start_date folder_prefix w s0 =
     (let job_id = generate_job_id name channels frequency w;
          job_config = \<lparr>j_id = job_id, j_name = name, j_channels = channels,
                        j_frequency = frequency, j_start_date = or_else start_date (w_today w),
                        j_folder_prefix = folder_prefix, j_created_at = w_now w,
                        j_last_run = None, j_status = ''active'', j_total_downloads = 0,
                        j_last_error = None\<rparr>;
          s1 = save_jobs (s0\<lparr>sc_jobs := AList.update job_id job_config (sc_jobs s0)\<rparr>)
      in case (if sc_running s1 then add_job_to_scheduler job_config s1 else Inr s1) of
           Inl e \<Rightarrow> (AddFailed e, s1)
         | Inr s2 \<Rightarrow>
             (AddOk job_id (''Scheduled job '' @ [CHR 0x22] @ name @ [CHR 0x22] @ '' created''),
              schedule_catchup_run job_config w s2))"

text \<open>\<open>_restore_jobs\<close> and \<open>start\<close>: an exception of a job's trigger leaves the loop.\<close>

fun restore_jobs :: "(string \<times> job) list \<Rightarrow> scheduler \<Rightarrow> string + scheduler" where
  "restore_jobs [] s = Inr s"
| "restore_jobs ((job_id, job_config) # rest) s =
     (if j_status job_config = ''active''
      then (case add_job_to_scheduler job_config s of
              Inl e \<Rightarrow> Inl e
            | Inr s' \<Rightarrow> restore_jobs rest s')
      else restore_jobs rest s)"

definition start :: "scheduler \<Rightarrow> string + scheduler" where
  "start s =
     (if \<not> sc_running s then restore_jobs (sc_jobs s) (s\<lparr>sc_running := True\<rparr>)
      else Inr s)"

definition update_job_status :: "string \<Rightarrow> string \<Rightarrow> string option \<Rightarrow> world \<Rightarrow> scheduler \<Rightarrow> scheduler" where
  "update_job_status job_id status error w s =
     (case map_of (sc_jobs s) job_id of
        None \<Rightarrow> s
      | Some job_config \<Rightarrow>
          save_jobs (s\<lparr>sc_jobs := AList.update job_id
                         (job_config\<lparr>j_status := status, j_last_run := Some (w_now w),
                                      j_last_error := (if truthy_opt error then error else None)\<rparr>)
                         (sc_jobs s)\<rparr>))"

text \<open>The date filter of a trigger: since the last run, or since the start date.\<close>

definition date_filter :: "job \<Rightarrow> world \<Rightarrow> string + string" where
  "date_filter job_config w =
     (if truthy_opt (j_last_run job_config)
      then (case j_last_run job_config of
              None \<Rightarrow> Inr (j_start_date job_config)
            | Some last_run_date \<Rightarrow> w_iso_to_ymd w last_run_date)
      else Inr (j_start_date job_config))"

definition download_config :: "job \<Rightarrow> string \<Rightarrow> string \<Rightarrow> config" where
  "download_config job_config after_date channel =
     \<lparr>c_api_key = None, c_channel = Some channel, c_video_ids = None,
      c_after_date = Some after_date,
      c_folder = Some (if truthy (j_folder_prefix job_config)
                       then j_folder_prefix job_config @ channel else channel),
      c_delay = DelayNumber 3, c_limit = None\<rparr>"

text \<open>The \<open>for channel in job_config['channels']\<close> loop of a trigger.\<close>

fun download_channels :: "job \<Rightarrow> string \<Rightarrow> string list \<Rightarrow> nat \<Rightarrow> world \<Rightarrow> (nat \<times> world) option" where
  "download_channels job_config after_date [] total_downloads w = Some (total_downloads, w)"
| "download_channels job_config after_date (channel # rest) total_downloads w =
     (case run_download (download_config job_config after_date channel) w of
        None \<Rightarrow> None
      | Some (RunOk sm, w') \<Rightarrow>
          download_channels job_config after_date rest (total_downloads + sm_total_downloads sm) w'
      | Some (RunFailed e, w') \<Rightarrow>
          download_channels job_config after_date rest total_downloads w')"

definition run_scheduled_download :: "string \<Rightarrow> scheduler \<Rightarrow> world \<Rightarrow> (scheduler \<times> world) option" where
  "run_scheduled_download job_id s w =
     (case map_of (sc_jobs s) job_id of
        None \<Rightarrow> Some (s, w)
      | Some job_config \<Rightarrow>
          (case date_filter job_config w of
             Inl error_msg \<Rightarrow> Some (update_job_status job_id ''failed'' (Some error_msg) w s, w)
           | Inr after_date \<Rightarrow>
               (case download_channels job_config after_date (j_channels job_config) 0 w of
                  None \<Rightarrow> None
                | Some (total_downloads, w') \<Rightarrow>
                    Some (update_job_status job_id ''completed'' None w'
                            (s\<lparr>sc_jobs := AList.update job_id
                                  (job_config\<lparr>j_total_downloads :=
                                     j_total_downloads job_config + total_downloads\<rparr>)
                                  (sc_jobs s)\<rparr>), w'))))"

section \<open>Notions used in the statements\<close>

text \<open>
  Two worlds that differ at most in the repository contents and the effect log: the remote
  services and the process environment answer the same.
\<close>

definition same_services :: "world \<Rightarrow> world \<Rightarrow> bool" where
  "same_services w w' = (w' = w\<lparr>gh_files := gh_files w', w_log := w_log w'\<rparr>)"

text \<open>A text without the characters that end the path of a URL.\<close>

definition plain :: "string \<Rightarrow> bool" where
  "plain s = (CHR ''?'' \<notin> set s \<and> CHR ''#'' \<notin> set s)"

text \<open>
  The contents requests for a path go through: no fault is injected into the read or the
  write, and a file already stored there has a blob hash that is not empty.
\<close>

definition storage_accepts :: "world \<Rightarrow> string \<Rightarrow> bool" where
  "storage_accepts w path =
     (gh_get_fault w path = None \<and> gh_put_fault w path = None
      \<and> (case gh_files w (request_path path) of
             None \<Rightarrow> True
           | Some old \<Rightarrow> truthy (gh_blob_sha w old)))"

text \<open>
  The transcript API lists the video's transcripts and the tiers pick the snippets
  \<open>tr\<close>, at least one, with the type tag \<open>ty\<close>.
\<close>

definition fetchable :: "world \<Rightarrow> string \<Rightarrow> snippet list \<Rightarrow> string \<Rightarrow> bool" where
  "fetchable w video_id tr ty =
     (case ta_list w video_id of
        Inl e \<Rightarrow> False
      | Inr tlist \<Rightarrow> fst (select_transcript tlist w) = Picked tr ty \<and> tr \<noteq> [])"




text \<open>The tiers that the selection tries for a transcript list, in order.\<close>

definition tiers_tried :: "transcript_list \<Rightarrow> nat list" where
  "tiers_tried tlist =
     (if attempt (find_manually_created_transcript tlist [''en'']) \<noteq> None then [1]
      else if attempt (find_generated_transcript tlist [''en'']) \<noteq> None then [1, 2]
      else if attempt (find_transcript tlist [''en'']) \<noteq> None then [1, 2, 3]
      else [1, 2, 3, 4])"

text \<open>The metadata that \<open>download_transcript\<close> hands to \<open>save_transcript\<close>.\<close>

definition metadata_of :: "snippet list \<Rightarrow> string \<Rightarrow> string option \<Rightarrow> timestamp option \<Rightarrow> metadata" where
  "metadata_of tr ty channel_id published_at =
     \<lparr>md_transcript_type = ty, md_duration = sn_start (last tr),
      md_channel_id = or_else channel_id [], md_published_at = published_at\<rparr>"

text \<open>The effects inside one \<open>download_transcript\<close> call.\<close>

fun inner :: "event \<Rightarrow> bool" where
  "inner (Tier n) = True"
| "inner (SearchCode v) = True"
| "inner (PutContents p c) = True"
| "inner (RunDownload c) = False"
| "inner (DownloadTranscript v t) = False"
| "inner (Sleep d) = False"

text \<open>The existence probe's search request raises or answers with a status other than 200.\<close>

definition probe_fails :: "world \<Rightarrow> string \<Rightarrow> bool" where
  "probe_fails w video_id =
     (case gh_search w video_id of
        Raises e \<Rightarrow> True
      | Response status text items \<Rightarrow> status \<noteq> 200)"

text \<open>
  A small world for concrete runs: an empty repository that accepts every request, a code
  search that finds nothing, no channel, no transcript, and an API key.
\<close>

definition quiet_world :: world where
  "quiet_world =
     \<lparr>yt_search = (\<lambda>query key. Response 200 [] []),
      yt_channel_info = (\<lambda>cid key. Response 200 [] []),
      yt_uploads = (\<lambda>cid key. Response 200 [] []),
      yt_playlist_items = (\<lambda>pl key tok. Response 200 [] \<lparr>pg_items = [], pg_nextPageToken = None\<rparr>),
      ta_list = (\<lambda>vid. Inl ''Could not retrieve a transcript''),
      gh_files = Map.empty,
      gh_search = (\<lambda>vid. Response 200 [] []),
      gh_get_fault = (\<lambda>p. None),
      gh_put_fault = (\<lambda>p. None),
      gh_blob_sha = (\<lambda>f. ''3b18e512dba79e4c8300dd08aeb37f8e728b8dad''),
      gh_html_url = (\<lambda>p. ''https://host/blob/main/'' @ p),
      w_api_key = Some ''key'',
      w_now = ''2024-05-01T00:00:00'',
      w_today = ''2024-05-01'',
      w_strptime = (\<lambda>s. Inr 0),
      w_iso_to_ymd = (\<lambda>s. Inr (take 10 s)),
      w_md5 = (\<lambda>s. ''0123456789abcdef0123456789abcdef''),
      w_float = (\<lambda>s. Inl (''could not convert string to float: '' @ s)),
      w_log = []\<rparr>"

definition sample_metadata :: metadata where
  "sample_metadata =
     \<lparr>md_transcript_type = ''manual'', md_duration = 12, md_channel_id = ''UC1'',
      md_published_at = None\<rparr>"

text \<open>The tier events, and the requests to the storage host.\<close>

fun is_tier :: "event \<Rightarrow> bool" where
  "is_tier (Tier n) = True"
| "is_tier (RunDownload c) = False"
| "is_tier (DownloadTranscript v t) = False"
| "is_tier (SearchCode v) = False"
| "is_tier (PutContents p c) = False"
| "is_tier (Sleep d) = False"

fun storage_event :: "event \<Rightarrow> bool" where
  "storage_event (SearchCode v) = True"
| "storage_event (PutContents p c) = True"
| "storage_event (Tier n) = False"
| "storage_event (RunDownload c) = False"
| "storage_event (DownloadTranscript v t) = False"
| "storage_event (Sleep d) = False"

text \<open>
  A video with only an auto-generated English transcript: one whose fetch succeeds, and
  one whose fetch raises.
\<close>

definition generated_en :: transcript where
  "generated_en =
     \<lparr>t_language = ''English (auto-generated)'', t_language_code = ''en'',
      t_fetch = Inr [\<lparr>sn_text = ''hello'', sn_start = 0\<rparr>, \<lparr>sn_text = ''world'', sn_start = 2\<rparr>]\<rparr>"

definition flaky_en :: transcript where
  "flaky_en =
     \<lparr>t_language = ''English (auto-generated)'', t_language_code = ''en'',
      t_fetch = Inl ''connection reset''\<rparr>"

definition generated_world :: world where
  "generated_world =
     quiet_world\<lparr>ta_list := (\<lambda>vid. Inr \<lparr>tl_manual = [], tl_generated = [generated_en]\<rparr>)\<rparr>"

definition flaky_world :: world where
  "flaky_world =
     quiet_world\<lparr>ta_list := (\<lambda>vid. Inr \<lparr>tl_manual = [], tl_generated = [flaky_en]\<rparr>)\<rparr>"

text \<open>
  A world whose code search is down while the repository already holds a document for the
  video \<open>abc\<close>.
\<close>

definition old_document :: stored where
  "old_document =
     \<lparr>st_video_id = ''abc'', st_channel_id = ''UC1'', st_title = ''My Title'',
      st_channel = ''Chan'', st_published_at = None,
      st_downloaded_at = ''2024-01-01T00:00:00'', st_transcript = ''old text'',
      st_metadata = sample_metadata\<rparr>"

definition outage_world :: world where
  "outage_world =
     quiet_world\<lparr>gh_files := [''channels/Chan/abc_My_Title.json'' \<mapsto> old_document],
                  gh_search := (\<lambda>vid. Raises ''connection timed out''),
                  ta_list := (\<lambda>vid. Inr \<lparr>tl_manual = [], tl_generated = [generated_en]\<rparr>)\<rparr>"


text \<open>
  A result that the download loop counts as a duplicate, and the counters agreeing with
  the results recorded so far.
\<close>

definition is_duplicate_result :: "video_result \<Rightarrow> bool" where
  "is_duplicate_result r = (\<not> vr_success r \<and> str_in ''duplicate'' (lower (vr_result r)))"

definition tally_ok :: "tally \<Rightarrow> bool" where
  "tally_ok t =
     (success_count t = length (filter vr_success (results t))
      \<and> failed_count t = length (filter (\<lambda>r. \<not> vr_success r) (results t))
      \<and> duplicate_count t = length (filter is_duplicate_result (results t)))"

text \<open>
  A world whose repository already holds the video \<open>dup1\<close>, and runs over explicit video
  ids with every other key of the configuration absent.
\<close>

definition library_world :: world where
  "library_world =
     quiet_world\<lparr>gh_search := (\<lambda>vid. if vid = ''dup1'' then Response 200 [] [''channels/Chan/dup1_T.json'']
                                    else Response 200 [] [])\<rparr>"

definition ids_config :: "string \<Rightarrow> config" where
  "ids_config video_ids =
     \<lparr>c_api_key = None, c_channel = None, c_video_ids = Some video_ids, c_after_date = None,
      c_folder = None, c_delay = DelayAbsent, c_limit = None\<rparr>"

text \<open>
  The pages of a playlist as the listing API serves them to the loop, starting from the
  loop's page token: every request is answered with status 200, and the last page is the
  first one without a token.
\<close>

inductive page_chain :: "world \<Rightarrow> string \<Rightarrow> string \<Rightarrow> string option \<Rightarrow> playlist_page list \<Rightarrow> bool"
  for w :: world and playlist_id :: string and api_key :: string where
  last_page:
    "yt_playlist_items w playlist_id api_key (if truthy_opt tok then tok else None)
       = Response 200 body pg
     \<Longrightarrow> \<not> truthy_opt (pg_nextPageToken pg)
     \<Longrightarrow> page_chain w playlist_id api_key tok [pg]"
| next_page:
    "yt_playlist_items w playlist_id api_key (if truthy_opt tok then tok else None)
       = Response 200 body pg
     \<Longrightarrow> truthy_opt (pg_nextPageToken pg)
     \<Longrightarrow> page_chain w playlist_id api_key (pg_nextPageToken pg) pgs
     \<Longrightarrow> page_chain w playlist_id api_key tok (pg # pgs)"

text \<open>The candidates of a list of pages: the items that pass the date filter, in order.\<close>

definition candidates :: "string option \<Rightarrow> timestamp option \<Rightarrow> playlist_page list \<Rightarrow> video list" where
  "candidates channel_id after_date pages =
     map (video_of_item channel_id) (filter (passes_filter after_date) (concat (map pg_items pages)))"

text \<open>
  The number of pages to request until \<open>k\<close> more items that pass the filter have been
  collected: a page is requested only while items are still missing.
\<close>

fun pages_needed :: "timestamp option \<Rightarrow> nat \<Rightarrow> playlist_page list \<Rightarrow> nat" where
  "pages_needed after_date k [] = 0"
| "pages_needed after_date k (pg # pgs) =
     (if k \<le> length (filter (passes_filter after_date) (pg_items pg)) then 1
      else 1 + pages_needed after_date (k - length (filter (passes_filter after_date) (pg_items pg))) pgs)"

text \<open>
  A playlist of two pages: two videos published at the instants 101 and 100 on the first
  page, one published at 99 on the second.
\<close>

definition sample_item :: "string \<Rightarrow> timestamp \<Rightarrow> playlist_item" where
  "sample_item vid published =
     \<lparr>pi_publishedAt = published, pi_videoId = vid, pi_title = ''Title '' @ vid,
      pi_channelTitle = ''Chan'', pi_channelId = Some ''UC1''\<rparr>"

definition first_page :: playlist_page where
  "first_page = \<lparr>pg_items = [sample_item ''a'' 101, sample_item ''b'' 100],
                  pg_nextPageToken = Some ''p2''\<rparr>"

definition second_page :: playlist_page where
  "second_page = \<lparr>pg_items = [sample_item ''c'' 99], pg_nextPageToken = None\<rparr>"

definition paged_world :: world where
  "paged_world =
     quiet_world\<lparr>yt_playlist_items :=
        (\<lambda>pl key tok. if tok = None then Response 200 [] first_page
                       else if tok = Some ''p2'' then Response 200 [] second_page
                       else Response 404 ''pageToken not found''
                              \<lparr>pg_items = [], pg_nextPageToken = None\<rparr>)\<rparr>"

text \<open>The calls of \<open>run_download\<close> among the effects.\<close>

fun is_run :: "event \<Rightarrow> bool" where
  "is_run (RunDownload c) = True"
| "is_run (DownloadTranscript v t) = False"
| "is_run (Tier n) = False"
| "is_run (SearchCode v) = False"
| "is_run (PutContents p c) = False"
| "is_run (Sleep d) = False"

text \<open>The frequencies that \<open>_get_cron_trigger\<close> knows.\<close>

definition supported :: "string \<Rightarrow> bool" where
  "supported frequency = (frequency = ''daily'' \<or> frequency = ''weekly'' \<or> frequency = ''monthly'')"

text \<open>
  A scheduler without jobs that has not been started, and the same one started; and a
  started scheduler with one job over the channels \<open>a\<close> and \<open>b\<close>.
\<close>

definition idle_scheduler :: scheduler where
  "idle_scheduler =
     \<lparr>sc_jobs = [], sc_running = False, sc_timer = [], sc_file = None, sc_disk_ok = True\<rparr>"

definition started_scheduler :: scheduler where
  "started_scheduler = idle_scheduler\<lparr>sc_running := True\<rparr>"

definition two_channel_job :: job where
  "two_channel_job =
     \<lparr>j_id = ''job1'', j_name = ''Nightly'', j_channels = [''a'', ''b''], j_frequency = ''daily'',
      j_start_date = ''2024-01-01'', j_folder_prefix = [], j_created_at = ''2024-01-01T08:00:00'',
      j_last_run = None, j_status = ''active'', j_total_downloads = 0, j_last_error = None\<rparr>"

definition job_scheduler :: scheduler where
  "job_scheduler = started_scheduler\<lparr>sc_jobs := [(''job1'', two_channel_job)]\<rparr>"

text \<open>
  A world in which the channel search knows the channel \<open>b\<close> only: its uploads playlist
  has one page with one video, published at the instant 200, whose transcript can be
  fetched. The search for any other channel is answered with status 404.
\<close>

definition mixed_world :: world where
  "mixed_world =
     generated_world
       \<lparr>yt_search := (\<lambda>query key. if query = ''b'' then Response 200 [] [''UCb'']
                                   else Response 404 ''channel search failed'' []),
        yt_channel_info := (\<lambda>cid key. Response 200 [] [''B Channel'']),
        yt_uploads := (\<lambda>cid key. Response 200 [] [''UUb'']),
        yt_playlist_items :=
          (\<lambda>pl key tok. Response 200 []
             \<lparr>pg_items = [sample_item ''v1'' 200], pg_nextPageToken = None\<rparr>)\<rparr>"

section \<open>Properties of the storage adapter\<close>

lemma emit_fields [simp]:
  "yt_search (emit e w) = yt_search w"
  "yt_channel_info (emit e w) = yt_channel_info w"
  "yt_uploads (emit e w) = yt_uploads w"
  "yt_playlist_items (emit e w) = yt_playlist_items w"
  "ta_list (emit e w) = ta_list w"
  "gh_files (emit e w) = gh_files w"
  "gh_search (emit e w) = gh_search w"
  "gh_get_fault (emit e w) = gh_get_fault w"
  "gh_put_fault (emit e w) = gh_put_fault w"
  "gh_blob_sha (emit e w) = gh_blob_sha w"
  "gh_html_url (emit e w) = gh_html_url w"
  "w_api_key (emit e w) = w_api_key w"
  "w_now (emit e w) = w_now w"
  "w_today (emit e w) = w_today w"
  "w_strptime (emit e w) = w_strptime w"
  "w_iso_to_ymd (emit e w) = w_iso_to_ymd w"
  "w_md5 (emit e w) = w_md5 w"
  "w_float (emit e w) = w_float w"
  "w_log (emit e w) = w_log w @ [e]"
  by (simp_all add: emit_def)

lemma re_sub_invalid_filter: "re_sub_invalid s = filter (\<lambda>c. c \<notin> set invalid_chars) s"
  by (induction s) simp_all

lemma replace_space_map: "replace_space s = map (\<lambda>c. if c = CHR '' '' then CHR ''_'' else c) s"
  by (induction s) simp_all

text \<open>
  Claim C9. For every input name, \<open>_sanitize_name\<close> removes every occurrence of the
  characters \<open>< > : " / \ | ? * @\<close>, replaces every space with an underscore, and
  truncates the result to at most 100 characters: the result is the first 100 characters
  of the name with the listed characters filtered out and the spaces mapped to
  underscores, so none of the listed characters and no space is left in it.
\<close>

theorem sanitize_name_spec:
  "sanitize_name name =
     take 100 (map (\<lambda>c. if c = CHR '' '' then CHR ''_'' else c)
                 (filter (\<lambda>c. c \<notin> set invalid_chars) name))
   \<and> (\<forall>c \<in> set (sanitize_name name). c \<notin> set invalid_chars \<and> c \<noteq> CHR '' '')
   \<and> length (sanitize_name name) \<le> 100"
proof -
  have eq: "sanitize_name name =
     take 100 (map (\<lambda>c. if c = CHR '' '' then CHR ''_'' else c)
                 (filter (\<lambda>c. c \<notin> set invalid_chars) name))"
    by (simp add: sanitize_name_def re_sub_invalid_filter replace_space_map)
  have under: "CHR ''_'' \<notin> set invalid_chars"
    by (simp add: invalid_chars_def)
  have clean: "c \<notin> set invalid_chars \<and> c \<noteq> CHR '' ''" if "c \<in> set (sanitize_name name)" for c
  proof -
    from that have "c \<in> set (map (\<lambda>c. if c = CHR '' '' then CHR ''_'' else c)
                 (filter (\<lambda>c. c \<notin> set invalid_chars) name))"
      unfolding eq by (rule in_set_takeD)
    then show ?thesis using under by (auto split: if_splits)
  qed
  have "length (sanitize_name name) \<le> 100"
    by (simp add: sanitize_name_def)
  with eq clean show ?thesis by blast
qed

theorem sanitize_name_spec_witness:
  "sanitize_name ''a b<c@d?'' = ''a_bcd''
   \<and> set (sanitize_name ''a b<c@d?'') \<inter> (set invalid_chars \<union> {CHR '' ''}) = {}
   \<and> length (sanitize_name ''a b<c@d?'') \<le> 100"
proof -
  have v: "sanitize_name ''a b<c@d?'' = ''a_bcd''"
    by (simp add: sanitize_name_def invalid_chars_def)
  have "set (sanitize_name ''a b<c@d?'') \<inter> (set invalid_chars \<union> {CHR '' ''}) = {}"
    using sanitize_name_spec [of "''a b<c@d?''"] by blast
  moreover have "length (sanitize_name ''a b<c@d?'') \<le> 100"
    using sanitize_name_spec [of "''a b<c@d?''"] by blast
  ultimately show ?thesis using v by blast
qed

lemma request_path_plain: "plain a \<Longrightarrow> request_path (a @ b) = a @ request_path b"
  unfolding request_path_def plain_def
  by (rule takeWhile_append2) auto

lemma request_path_plain_all: "plain a \<Longrightarrow> request_path a = a"
  using request_path_plain [of a "[]"] by (simp add: request_path_def)

lemma plain_append [simp]: "plain (a @ b) = (plain a \<and> plain b)"
  by (auto simp: plain_def)

lemma plain_sanitize: "CHR ''#'' \<notin> set name \<Longrightarrow> plain (sanitize_name name)"
proof -
  assume h: "CHR ''#'' \<notin> set name"
  have "set (sanitize_name name)
          \<subseteq> set (map (\<lambda>c. if c = CHR '' '' then CHR ''_'' else c)
                     (filter (\<lambda>c. c \<notin> set invalid_chars) name))"
    unfolding sanitize_name_def re_sub_invalid_filter replace_space_map
    by (rule set_take_subset)
  moreover have "CHR ''?'' \<in> set invalid_chars"
    by (simp add: invalid_chars_def)
  ultimately show ?thesis
    using h by (auto simp: plain_def split: if_splits)
qed

lemma path_differs:
  assumes "plain video_id" and "CHR ''#'' \<notin> set channel_name"
  shows "request_path (save_path channel_name video_id title)
           \<noteq> request_path (get_path channel_name title)"
proof
  let ?pre = "''channels/'' @ sanitize_name channel_name @ ''/''"
  let ?rest = "sanitize_name title @ ''.json''"
  have p1: "plain ?pre"
    using plain_sanitize [OF assms(2)] by (simp add: plain_def)
  have p2: "plain (?pre @ video_id @ ''_'')"
    using p1 assms(1) by (simp add: plain_def)
  have s: "request_path (save_path channel_name video_id title)
             = ?pre @ video_id @ ''_'' @ request_path ?rest"
    using request_path_plain [OF p2, of ?rest] by (simp add: save_path_def)
  have g: "request_path (get_path channel_name title) = ?pre @ request_path ?rest"
    using request_path_plain [OF p1, of ?rest] by (simp add: get_path_def)
  assume "request_path (save_path channel_name video_id title)
            = request_path (get_path channel_name title)"
  then have "length (?pre @ video_id @ ''_'' @ request_path ?rest)
               = length (?pre @ request_path ?rest)"
    unfolding s g by simp
  then show False by simp
qed

lemma check_world [simp]:
  "snd (check_transcript_exists video_id w) = emit (SearchCode video_id) w"
  by (simp add: check_transcript_exists_def Let_def split: response.splits)

lemma check_worldD:
  "check_transcript_exists video_id w = (b, w') \<Longrightarrow> w' = emit (SearchCode video_id) w"
  using check_world [of video_id w] by simp

lemma github_put_frame:
  assumes "github_put p sha c w = (r, w')"
  shows "gh_get_fault w' = gh_get_fault w"
    and "gh_put_fault w' = gh_put_fault w"
    and "gh_search w' = gh_search w"
    and "gh_blob_sha w' = gh_blob_sha w"
    and "ta_list w' = ta_list w"
    and "q \<noteq> request_path p \<Longrightarrow> gh_files w' q = gh_files w q"
  using assms
  by (auto simp: github_put_def Let_def split: option.splits fault.splits if_splits)

lemma github_get_emit [simp]: "github_get (emit e w) p = github_get w p"
  by (simp add: github_get_def split: option.splits fault.splits)

lemma get_file_sha_emit [simp]: "get_file_sha p (emit e w) = get_file_sha p w"
  by (simp add: get_file_sha_def)

lemma save_transcript_frame:
  assumes "save_transcript ch vid t text md w = (r, w')"
  shows "gh_get_fault w' = gh_get_fault w"
    and "gh_blob_sha w' = gh_blob_sha w"
    and "q \<noteq> request_path (save_path ch vid t) \<Longrightarrow> gh_files w' q = gh_files w q"
  using assms
  by (auto simp: save_transcript_def Let_def
           dest!: check_worldD dest: github_put_frame
           split: prod.splits bool.splits option.splits sum.splits response.splits if_splits)

text \<open>
  Claim C2. A transcript stored by \<open>save_transcript\<close> is not what \<open>get_transcript\<close>
  returns for the same channel name and title: the file is written under
  \<open>channels/channel/videoId_title.json\<close> and read from \<open>channels/channel/title.json\<close>.
  Where the video id has no \<open>?\<close> or \<open>#\<close> and the channel name no \<open>#\<close>, so that both
  request URLs name the path they are built from, a save never changes the answer of
  the read, whatever the world.
\<close>

theorem save_does_not_reach_get:
  assumes "plain video_id" and "CHR ''#'' \<notin> set channel_name"
  shows "get_transcript channel_name title
           (snd (save_transcript channel_name video_id title transcript_text metadata w))
         = get_transcript channel_name title w"
proof -
  obtain r w' where s: "save_transcript channel_name video_id title transcript_text metadata w = (r, w')"
    by (cases "save_transcript channel_name video_id title transcript_text metadata w")
  have ne: "request_path (get_path channel_name title)
              \<noteq> request_path (save_path channel_name video_id title)"
    using path_differs [OF assms, of title] by simp
  have "github_get w' (get_path channel_name title) = github_get w (get_path channel_name title)"
    using save_transcript_frame [OF s] ne by (simp add: github_get_def split: option.splits fault.splits)
  then show ?thesis
    by (simp add: s get_transcript_def)
qed

lemma same_services_refl [simp]: "same_services w w"
  by (simp add: same_services_def)

lemma same_services_emit [simp]: "same_services w (emit e w)"
  by (simp add: same_services_def emit_def)

lemma same_services_trans: "same_services a b \<Longrightarrow> same_services b c \<Longrightarrow> same_services a c"
  unfolding same_services_def
  by (cases a; cases b; cases c) simp

lemma same_services_files [simp]: "same_services w (w\<lparr>gh_files := fs\<rparr>)"
  by (simp add: same_services_def)

lemma same_servicesD:
  assumes "same_services w w'"
  shows "gh_search w' = gh_search w" and "ta_list w' = ta_list w"
    and "gh_get_fault w' = gh_get_fault w" and "gh_put_fault w' = gh_put_fault w"
    and "gh_blob_sha w' = gh_blob_sha w" and "gh_html_url w' = gh_html_url w"
    and "w_now w' = w_now w"
  using assms unfolding same_services_def
  by (cases w; cases w'; simp)+

lemma same_services_put: "same_services w (snd (github_put p sha c w))"
  by (simp add: github_put_def same_services_def emit_def Let_def
           split: option.splits fault.splits)


lemma same_services_putD: "github_put p sha c w = (r, w') \<Longrightarrow> same_services w w'"
  using same_services_put [of w p sha c] by simp

lemma same_services_save: "same_services w (snd (save_transcript ch vid t text md w))"
proof -
  have "same_services w w2" if "github_put p sha c (emit (SearchCode vid) w) = (r, w2)" for p sha c r w2
    using same_services_trans [OF same_services_emit same_services_putD [OF that]] .
  then show ?thesis
    by (auto simp: save_transcript_def Let_def dest!: check_worldD
             split: prod.splits bool.splits option.splits sum.splits response.splits
             split del: if_split)
qed

lemma same_services_select: "same_services w (snd (select_transcript tlist w))"
  by (simp add: select_transcript_def same_services_def emit_def Let_def
           split: option.splits list.splits sum.splits)

lemma probe_fails_same: "same_services w w' \<Longrightarrow> probe_fails w' v = probe_fails w v"
  by (simp add: probe_fails_def same_servicesD)

lemma probe_fails_check: "probe_fails w v \<Longrightarrow> check_transcript_exists v w = (False, emit (SearchCode v) w)"
  by (auto simp: probe_fails_def check_transcript_exists_def Let_def split: response.splits)

lemma probe_fails_save:
  assumes "probe_fails w v"
  shows "fst (save_transcript ch v t text md w) \<noteq> Inr SaveDuplicate"
  using probe_fails_check [OF assms]
  by (auto simp: save_transcript_def Let_def
           split: prod.splits option.splits sum.splits response.splits)

lemma quiet_fields [simp]:
  "gh_files quiet_world = Map.empty"
  "gh_search quiet_world = (\<lambda>vid. Response 200 [] [])"
  "gh_get_fault quiet_world = (\<lambda>p. None)"
  "gh_put_fault quiet_world = (\<lambda>p. None)"
  "gh_html_url quiet_world = (\<lambda>p. ''https://host/blob/main/'' @ p)"
  "w_api_key quiet_world = Some ''key''"
  "w_log quiet_world = []"
  "ta_list quiet_world = (\<lambda>vid. Inl ''Could not retrieve a transcript'')"
  by (simp_all add: quiet_world_def)

theorem save_then_get_not_found:
  "fst (save_transcript ''Chan'' ''abc'' ''My Title'' ''text'' (Some sample_metadata) quiet_world)
     = Inr (SaveOk ''channels/Chan/abc_My_Title.json''
              ''https://host/blob/main/channels/Chan/abc_My_Title.json'')
   \<and> get_transcript ''Chan'' ''My Title''
        (snd (save_transcript ''Chan'' ''abc'' ''My Title'' ''text'' (Some sample_metadata) quiet_world))
     = Inr None"
proof -
  have a: "fst (save_transcript ''Chan'' ''abc'' ''My Title'' ''text'' (Some sample_metadata) quiet_world)
     = Inr (SaveOk ''channels/Chan/abc_My_Title.json''
              ''https://host/blob/main/channels/Chan/abc_My_Title.json'')"
    by (simp add: save_transcript_def check_transcript_exists_def get_file_sha_def github_get_def
          github_put_def save_path_def sanitize_name_def invalid_chars_def request_path_def Let_def)
  have b: "get_transcript ''Chan'' ''My Title'' quiet_world = Inr None"
    by (simp add: get_transcript_def github_get_def)
  have p: "plain ''abc''" and c: "CHR ''#'' \<notin> set ''Chan''"
    by (simp_all add: plain_def)
  show ?thesis
    using a b save_does_not_reach_get [OF p c, of "''My Title''" "''text''"
        "Some sample_metadata" quiet_world]
    by simp
qed

text \<open>
  The video id is put into the URL as it is: an id that ends the path with a \<open>?\<close> sends
  the write to the very file the read asks for.
\<close>

lemma query_in_id_reaches_get:
  "map_option st_transcript
     (projr (get_transcript ''Chan'' ''My Title''
        (snd (save_transcript ''Chan'' ''My_Title.json?'' ''My Title'' ''text''
                (Some sample_metadata) quiet_world))))
   = Some ''text''"
  by (simp add: save_transcript_def check_transcript_exists_def get_file_sha_def github_get_def
        github_put_def save_path_def get_path_def get_transcript_def sanitize_name_def
        invalid_chars_def request_path_def document_def Let_def)

subsection \<open>A failed existence probe\<close>

lemma document_emit [simp]: "document ch v t text md (emit e w) = document ch v t text md w"
  by (simp add: document_def)

lemma probe_fails_emit [simp]: "probe_fails (emit e w) v = probe_fails w v"
  by (simp add: probe_fails_def)

lemma list_failure_not_dup: "list_failure v e \<noteq> duplicate_message"
  by (simp add: list_failure_def duplicate_message_def)

lemma unexpected_failure_not_dup: "unexpected_failure v e \<noteq> duplicate_message"
  by (simp add: unexpected_failure_def duplicate_message_def)

lemma save_failure_not_dup:
  "(if b then ''GitHub API rate limit reached - please wait before retrying''
    else ''GitHub save failed: '' @ x) \<noteq> duplicate_message"
  by (simp add: duplicate_message_def)

lemma select_not_dup: "fst (select_transcript tlist w) \<noteq> GiveUp duplicate_message"
  by (simp add: select_transcript_def duplicate_message_def Let_def
           split: option.splits list.splits sum.splits)

lemma probe_fails_download:
  assumes "probe_fails w v"
  shows "fst (download_transcript v title cn cid pub w) \<noteq> (False, duplicate_message)"
proof -
  let ?w1 = "emit (SearchCode v) (emit (DownloadTranscript v title) w)"
  have p0: "probe_fails (emit (DownloadTranscript v title) w) v"
    using assms by simp
  have c: "check_transcript_exists v (emit (DownloadTranscript v title) w) = (False, ?w1)"
    by (rule probe_fails_check [OF p0])
  have p2: "probe_fails (snd (select_transcript tlist ?w1)) v" for tlist
  proof -
    have "same_services ?w1 (snd (select_transcript tlist ?w1))"
      by (rule same_services_select)
    then have "probe_fails (snd (select_transcript tlist ?w1)) v = probe_fails ?w1 v"
      by (rule probe_fails_same)
    then show ?thesis using assms by simp
  qed
  have s: "fst (save_transcript ch v title body md (snd (select_transcript tlist ?w1))) \<noteq> Inr SaveDuplicate"
    for ch body md tlist
    by (rule probe_fails_save [OF p2])
  show ?thesis
  proof (cases "ta_list ?w1 v")
    case (Inl e)
    then show ?thesis
      by (simp add: download_transcript_def c list_failure_not_dup)
  next
    case (Inr tlist)
    obtain pk w2 where sel: "select_transcript tlist ?w1 = (pk, w2)"
      by (cases "select_transcript tlist ?w1")
    show ?thesis
    proof (cases pk)
      case (GiveUp msg)
      then show ?thesis
        using select_not_dup [of tlist ?w1] sel Inr
        by (simp add: download_transcript_def c)
    next
      case (Picked tr ty)
      show ?thesis
      proof (cases "tr = []")
        case True
        then show ?thesis using Picked sel Inr
          by (simp add: download_transcript_def c duplicate_message_def)
      next
        case False
        obtain r w3 where sv: "save_transcript (or_else cn ''Unknown_Channel'') v title
              (join [CHR 0x0A] (map sn_text tr))
              (Some \<lparr>md_transcript_type = ty, md_duration = sn_start (last tr),
                     md_channel_id = or_else cid [], md_published_at = pub\<rparr>) w2 = (r, w3)"
          by (cases "save_transcript (or_else cn ''Unknown_Channel'') v title
              (join [CHR 0x0A] (map sn_text tr))
              (Some \<lparr>md_transcript_type = ty, md_duration = sn_start (last tr),
                     md_channel_id = or_else cid [], md_published_at = pub\<rparr>) w2")
        have "r \<noteq> Inr SaveDuplicate"
          using s [of "or_else cn ''Unknown_Channel''" "join [CHR 0x0A] (map sn_text tr)" _ tlist] sel sv
          by (metis fst_conv snd_conv)
        then show ?thesis using False Picked sel Inr sv
          by (auto simp: download_transcript_def c Let_def unexpected_failure_not_dup
                save_failure_not_dup split: sum.splits save_result.splits)
      qed
    qed
  qed
qed


section \<open>Properties of the transcript download\<close>

lemma put_log:
  "\<exists>es. w_log (snd (github_put p sha c w)) = w_log w @ es \<and> list_all storage_event es"
  by (simp add: github_put_def Let_def split: option.splits fault.splits)

lemma put_logD:
  "github_put p sha c w = (r, w') \<Longrightarrow> \<exists>es. w_log w' = w_log w @ es \<and> list_all storage_event es"
  using put_log [of p sha c w] by simp

lemma save_log:
  "\<exists>es. w_log (snd (save_transcript ch v t body md w)) = w_log w @ es \<and> list_all storage_event es"
proof -
  have "\<exists>es. w_log w2 = w_log w @ es \<and> list_all storage_event es"
    if "github_put p sha c (emit (SearchCode v) w) = (r, w2)" for p sha c r w2
    using put_logD [OF that] by auto
  then show ?thesis
    by (auto simp: save_transcript_def Let_def dest!: check_worldD
             split: prod.splits bool.splits option.splits sum.splits response.splits
             split del: if_split)
qed

lemma select_generated:
  assumes "find_manually_created_transcript tlist [''en''] = None"
    and "find_generated_transcript tlist [''en''] = Some t"
    and "t_fetch t = Inr snippets"
  shows "select_transcript tlist w = (Picked snippets ''auto-generated'', emit (Tier 2) (emit (Tier 1) w))"
  using assms by (simp add: select_transcript_def attempt_def Let_def)


lemma storage_not_tier: "list_all storage_event es \<Longrightarrow> filter is_tier es = []"
proof (induction es)
  case Nil
  show ?case by simp
next
  case (Cons e es)
  then show ?case by (cases e) simp_all
qed

section \<open>Properties of a run\<close>

lemma tier_inner: "list_all is_tier es \<Longrightarrow> list_all inner es"
proof (induction es)
  case Nil
  show ?case by simp
next
  case (Cons e es)
  then show ?case by (cases e) simp_all
qed





lemma record_outcome_ok:
  assumes "tally_ok t"
  shows "tally_ok (record_outcome video success result t)"
    and "length (results (record_outcome video success result t)) = Suc (length (results t))"
  using assms
  by (simp_all add: tally_ok_def record_outcome_def is_duplicate_result_def Let_def)

lemma download_each_ok:
  assumes "download_each delay vs t w = (Inr t', w')" and "tally_ok t"
  shows "tally_ok t' \<and> length (results t') = length (results t) + length vs"
  using assms
proof (induction vs arbitrary: t w)
  case Nil
  then show ?case by simp
next
  case (Cons video rest)
  obtain success result w1 where d: "download_transcript (v_id video) (v_title video)
      (Some (v_channel video)) (v_channel_id video) (v_date video) w = ((success, result), w1)"
    by (metis prod.collapse)
  let ?t = "record_outcome video success result t"
  have ok: "tally_ok ?t" and len: "length (results ?t) = Suc (length (results t))"
    using record_outcome_ok [OF Cons.prems(2)] by simp_all
  obtain w2 where "download_each delay rest ?t w2 = (Inr t', w')"
    using Cons.prems(1) d by (auto split: if_splits sum.splits)
  from Cons.IH [OF this ok] len show ?case by simp
qed

lemma tally_ok_sums:
  assumes "tally_ok t"
  shows "success_count t + failed_count t = length (results t)"
    and "duplicate_count t \<le> failed_count t"
proof -
  show "success_count t + failed_count t = length (results t)"
    using assms sum_length_filter_compl [of vr_success "results t"]
    by (simp add: tally_ok_def)
  have "filter is_duplicate_result (results t)
          = filter (\<lambda>r. \<not> vr_success r \<and> is_duplicate_result r) (results t)"
    by (rule filter_cong) (auto simp: is_duplicate_result_def)
  then have "length (filter is_duplicate_result (results t))
          \<le> length (filter (\<lambda>r. \<not> vr_success r) (results t))"
    by (metis filter_filter length_filter_le)
  then show "duplicate_count t \<le> failed_count t"
    using assms by (simp add: tally_ok_def)
qed

lemma run_download_tally:
  assumes "run_download cfg w = Some (RunOk sm, w')"
  shows "\<exists>t. tally_ok t \<and> length (results t) = sm_total_videos sm
            \<and> sm_success_count sm = success_count t \<and> sm_failed_count sm = failed_count t
            \<and> sm_duplicate_count sm = duplicate_count t \<and> sm_results sm = results t
            \<and> sm_total_downloads sm = success_count t"
proof -
  have e: "tally_ok empty_tally" "results empty_tally = []"
    by (simp_all add: tally_ok_def empty_tally_def)
  from assms obtain delay vs folder t where
      d: "download_each delay vs empty_tally (emit (RunDownload cfg) w) = (Inr t, w')"
      and sm: "sm = \<lparr>sm_total_videos = length vs, sm_total_downloads = success_count t,
                     sm_success_count = success_count t, sm_failed_count = failed_count t,
                     sm_duplicate_count = duplicate_count t, sm_folder = folder,
                     sm_results = results t\<rparr>"
    by (auto simp: run_download_def Let_def
             split: if_splits sum.splits option.splits prod.splits)
  from download_each_ok [OF d e(1)] e(2) sm show ?thesis by auto
qed


lemma duplicate_message_counts: "str_in ''duplicate'' (lower duplicate_message)"
  by (simp add: duplicate_message_def lower_def lower_char_def)

text \<open>
  Claim C3. For every pipeline run that completes normally, the returned summary satisfies
  \<open>success_count + failed_count = total_videos\<close> and \<open>duplicate_count \<le> failed_count\<close>: every
  item counted as a duplicate is a failed item whose message names a duplicate, as the
  duplicate outcome of \<open>download_transcript\<close> does, and it is counted in both.
\<close>

theorem summary_counts:
  assumes "run_download cfg w = Some (RunOk sm, w')"
  shows "sm_success_count sm + sm_failed_count sm = sm_total_videos sm
    \<and> sm_duplicate_count sm \<le> sm_failed_count sm
    \<and> length (sm_results sm) = sm_total_videos sm
    \<and> sm_failed_count sm = length (filter (\<lambda>r. \<not> vr_success r) (sm_results sm))
    \<and> sm_duplicate_count sm = length (filter is_duplicate_result (sm_results sm))
    \<and> is_duplicate_result
          \<lparr>vr_video_id = v, vr_title = t, vr_success = False, vr_result = duplicate_message\<rparr>"
proof -
  obtain t where t: "tally_ok t" "length (results t) = sm_total_videos sm"
      "sm_success_count sm = success_count t" "sm_failed_count sm = failed_count t"
      "sm_duplicate_count sm = duplicate_count t" "sm_results sm = results t"
    using run_download_tally [OF assms] by blast
  have "sm_failed_count sm = length (filter (\<lambda>r. \<not> vr_success r) (sm_results sm))"
    and "sm_duplicate_count sm = length (filter is_duplicate_result (sm_results sm))"
    using t by (simp_all add: tally_ok_def)
  moreover have "sm_success_count sm + sm_failed_count sm = sm_total_videos sm"
    and "sm_duplicate_count sm \<le> sm_failed_count sm"
    using tally_ok_sums [OF t(1)] t by simp_all
  moreover have "length (sm_results sm) = sm_total_videos sm"
    using t by simp
  ultimately show ?thesis
    using duplicate_message_counts by (simp add: is_duplicate_result_def)
qed

lemma library_fields [simp]:
  "gh_search library_world = (\<lambda>vid. if vid = ''dup1'' then Response 200 [] [''channels/Chan/dup1_T.json'']
                                    else Response 200 [] [])"
  "ta_list library_world = (\<lambda>vid. Inl ''Could not retrieve a transcript'')"
  "w_api_key library_world = Some ''key''"
  "w_log library_world = []"
  by (simp_all add: library_world_def quiet_world_def)

lemma split_two: "map strip (split_on (CHR '','') ''dup1,v2'') = [''dup1'', ''v2'']"
  by (simp add: strip_def isspace_def)

lemma library_run:
  "map_option fst (run_download (ids_config ''dup1,v2'') library_world)
     = Some (RunOk \<lparr>sm_total_videos = 2, sm_total_downloads = 0, sm_success_count = 0,
                     sm_failed_count = 2, sm_duplicate_count = 1, sm_folder = [],
                     sm_results =
                       [\<lparr>vr_video_id = ''dup1'', vr_title = ''video_dup1'', vr_success = False,
                         vr_result = ''Transcript already exists (duplicate)''\<rparr>,
                        \<lparr>vr_video_id = ''v2'', vr_title = ''video_v2'', vr_success = False,
                         vr_result = ''No transcript available for this video (ID: v2)''\<rparr>]\<rparr>)"
  by (simp add: run_download_def ids_config_def read_delay_def parse_after_date_def select_videos_def
        direct_videos_def strip_def isspace_def truthy_def empty_tally_def download_transcript_def
        check_transcript_exists_def duplicate_message_def list_failure_def sleep_def
        record_outcome_def lower_def lower_char_def Let_def)


theorem summary_counts_witness:
  "map_option fst (run_download (ids_config ''dup1,v2'') library_world)
     = Some (RunOk \<lparr>sm_total_videos = 2, sm_total_downloads = 0, sm_success_count = 0,
                     sm_failed_count = 2, sm_duplicate_count = 1, sm_folder = [],
                     sm_results =
                       [\<lparr>vr_video_id = ''dup1'', vr_title = ''video_dup1'', vr_success = False,
                         vr_result = ''Transcript already exists (duplicate)''\<rparr>,
                        \<lparr>vr_video_id = ''v2'', vr_title = ''video_v2'', vr_success = False,
                         vr_result = ''No transcript available for this video (ID: v2)''\<rparr>]\<rparr>)
   \<and> (0::nat) + 2 = 2 \<and> (1::nat) \<le> 2"
proof -
  let ?sm = "\<lparr>sm_total_videos = 2, sm_total_downloads = 0, sm_success_count = 0,
                     sm_failed_count = 2, sm_duplicate_count = 1, sm_folder = [],
                     sm_results =
                       [\<lparr>vr_video_id = ''dup1'', vr_title = ''video_dup1'', vr_success = False,
                         vr_result = ''Transcript already exists (duplicate)''\<rparr>,
                        \<lparr>vr_video_id = ''v2'', vr_title = ''video_v2'', vr_success = False,
                         vr_result = ''No transcript available for this video (ID: v2)''\<rparr>]\<rparr>"
  obtain w' where run: "run_download (ids_config ''dup1,v2'') library_world = Some (RunOk ?sm, w')"
    using library_run by (auto simp: map_option_case split: option.splits)
  have "sm_success_count ?sm + sm_failed_count ?sm = sm_total_videos ?sm
      \<and> sm_duplicate_count ?sm \<le> sm_failed_count ?sm"
    using summary_counts [OF run] by blast
  then show ?thesis using library_run by simp
qed

lemma parse_after_date_emit [simp]: "parse_after_date cfg (emit e w) = parse_after_date cfg w"
  by (simp add: parse_after_date_def split: option.splits)


section \<open>Properties of the playlist listing\<close>

lemma scan_items_unlimited:
  assumes "limit = None \<or> limit = Some 0"
  shows "scan_items cid after limit items acc
           = Continue (acc @ map (video_of_item cid) (filter (passes_filter after) items))"
  using assms
  by (induction items arbitrary: acc) (auto simp: limit_reached_def Let_def)

lemma candidates_Cons:
  "candidates cid after (pg # pgs)
     = map (video_of_item cid) (filter (passes_filter after) (pg_items pg)) @ candidates cid after pgs"
  by (simp add: candidates_def)

lemma loop_unlimited:
  assumes "page_chain w pl key tok pages" and "limit = None \<or> limit = Some 0"
  shows "playlist_loop w pl key cid after limit tok acc reqs
           = Some (Inr (acc @ candidates cid after pages), reqs + length pages)"
  using assms
proof (induction arbitrary: acc reqs rule: page_chain.induct)
  case (last_page tok body pg)
  show ?case
    apply (subst playlist_loop.simps)
    using last_page by (simp add: scan_items_unlimited candidates_def)
next
  case (next_page tok body pg pgs)
  show ?case
    apply (subst playlist_loop.simps)
    using next_page by (simp add: scan_items_unlimited candidates_Cons)
qed


lemma scan_items_limited:
  assumes "length acc < n"
  shows "scan_items cid after (Some (int n)) items acc
           = (if n \<le> length acc + length (filter (passes_filter after) items)
              then Return (acc @ take (n - length acc)
                             (map (video_of_item cid) (filter (passes_filter after) items)))
              else Continue (acc @ map (video_of_item cid) (filter (passes_filter after) items)))"
  using assms
proof (induction items arbitrary: acc)
  case Nil
  then show ?case by simp
next
  case (Cons item items)
  show ?case
  proof (cases "passes_filter after item")
    case False
    then show ?thesis using Cons by simp
  next
    case True
    show ?thesis
    proof (cases "n \<le> Suc (length acc)")
      case True
      then have "n = Suc (length acc)" using Cons.prems by simp
      then show ?thesis using \<open>passes_filter after item\<close>
        by (simp add: limit_reached_def Let_def)
    next
      case False
      then have less: "length (acc @ [video_of_item cid item]) < n" by simp
      have step: "n - length acc = Suc (n - Suc (length acc))"
        using False by arith
      from Cons.IH [OF less] False \<open>passes_filter after item\<close> show ?thesis
        by (simp add: limit_reached_def Let_def step)
    qed
  qed
qed

lemma candidates_length:
  "length (candidates cid after pages)
     = length (filter (passes_filter after) (concat (map pg_items pages)))"
  by (simp add: candidates_def)

lemma loop_limited:
  assumes "page_chain w pl key tok pages" and "length acc < n"
  shows "playlist_loop w pl key cid after (Some (int n)) tok acc reqs
           = Some (Inr (take n (acc @ candidates cid after pages)),
                   reqs + pages_needed after (n - length acc) pages)"
  using assms
proof (induction arbitrary: acc reqs rule: page_chain.induct)
  case (last_page tok body pg)
  show ?case
    apply (subst playlist_loop.simps)
    using last_page by (simp add: scan_items_limited candidates_def)
next
  case (next_page tok body pg pgs)
  let ?fs = "map (video_of_item cid) (filter (passes_filter after) (pg_items pg))"
  show ?case
  proof (cases "n \<le> length acc + length (filter (passes_filter after) (pg_items pg))")
    case True
    then have k: "n - length acc \<le> length (filter (passes_filter after) (pg_items pg))"
      by arith
    show ?thesis
      apply (subst playlist_loop.simps)
      using next_page.hyps next_page.prems True k
      by (simp add: scan_items_limited candidates_Cons)
  next
    case False
    then have less: "length (acc @ ?fs) < n" by simp
    have "playlist_loop w pl key cid after (Some (int n)) tok acc reqs
        = playlist_loop w pl key cid after (Some (int n)) (pg_nextPageToken pg) (acc @ ?fs) (Suc reqs)"
      apply (subst playlist_loop.simps)
      using next_page.hyps next_page.prems False
      by (simp add: scan_items_limited)
    also have "\<dots> = Some (Inr (take n ((acc @ ?fs) @ candidates cid after pgs)),
                   Suc reqs + pages_needed after (n - length (acc @ ?fs)) pgs)"
      by (rule next_page.IH [OF less])
    finally show ?thesis
    proof -
      assume eq: "playlist_loop w pl key cid after (Some (int n)) tok acc reqs
          = Some (Inr (take n ((acc @ ?fs) @ candidates cid after pgs)),
                   Suc reqs + pages_needed after (n - length (acc @ ?fs)) pgs)"
      have k: "\<not> n - length acc \<le> length (filter (passes_filter after) (pg_items pg))"
        using False by arith
      have d: "n - length (acc @ ?fs)
          = n - length acc - length (filter (passes_filter after) (pg_items pg))"
        by simp
      show ?thesis
        unfolding eq d using k by (simp add: candidates_Cons)
    qed
  qed
qed

lemma pages_needed_le: "pages_needed after k pages \<le> length pages"
  by (induction pages arbitrary: k) simp_all

lemma pages_needed_minimal:
  assumes "0 < k"
  shows "length (filter (passes_filter after)
           (concat (map pg_items (take (pages_needed after k pages - 1) pages)))) < k"
  using assms
proof (induction pages arbitrary: k)
  case Nil
  then show ?case by simp
next
  case (Cons pg pgs)
  let ?c = "length (filter (passes_filter after) (pg_items pg))"
  show ?case
  proof (cases "k \<le> ?c")
    case True
    then show ?thesis using Cons.prems by simp
  next
    case False
    then have pos: "0 < k - ?c" by simp
    show ?thesis
    proof (cases "pages_needed after (k - ?c) pgs")
      case 0
      then show ?thesis using False Cons.prems by simp
    next
      case (Suc m)
      then show ?thesis using False Cons.IH [OF pos] by simp
    qed
  qed
qed


lemma strict_filter: "filter (passes_filter (Some T)) items = filter (\<lambda>item. T < pi_publishedAt item) items"
  by (rule filter_cong) (simp_all add: passes_filter_def)

text \<open>
  Claim C6. For every filter value \<open>T\<close>, the listing that \<open>get_video_ids_from_playlist\<close>
  returns for a playlist whose pages are all served holds exactly the playlist items
  published strictly after \<open>T\<close>, in order: an item published exactly at \<open>T\<close> is left
  out. With a positive limit the listing is the first items of that same selection.
\<close>

theorem after_date_filter_strict:
  assumes "page_chain w playlist_id api_key None pages"
  shows "(limit = None \<or> limit = Some 0 \<longrightarrow>
            get_video_ids_from_playlist playlist_id api_key channel_id (Some T) limit w
              = Some (Inr (map (video_of_item channel_id)
                             (filter (\<lambda>item. T < pi_publishedAt item)
                                (concat (map pg_items pages)))),
                      length pages))
       \<and> (0 < n \<longrightarrow>
            map_option fst
              (get_video_ids_from_playlist playlist_id api_key channel_id (Some T) (Some (int n)) w)
              = Some (Inr (take n (map (video_of_item channel_id)
                             (filter (\<lambda>item. T < pi_publishedAt item)
                                (concat (map pg_items pages)))))))"
proof -
  have a: "get_video_ids_from_playlist playlist_id api_key channel_id (Some T) limit w
              = Some (Inr (map (video_of_item channel_id)
                             (filter (\<lambda>item. T < pi_publishedAt item)
                                (concat (map pg_items pages)))),
                      length pages)" if "limit = None \<or> limit = Some 0"
    using loop_unlimited [OF assms that, of channel_id "Some T" "[]" 0]
    by (simp add: get_video_ids_from_playlist_def candidates_def strict_filter)
  have b: "map_option fst
              (get_video_ids_from_playlist playlist_id api_key channel_id (Some T) (Some (int n)) w)
              = Some (Inr (take n (map (video_of_item channel_id)
                             (filter (\<lambda>item. T < pi_publishedAt item)
                                (concat (map pg_items pages))))))" if "0 < n"
    using loop_limited [OF assms, of "[]" n channel_id "Some T" 0] that
    by (simp add: get_video_ids_from_playlist_def candidates_def strict_filter)
  show ?thesis using a b by blast
qed

lemma paged_chain: "page_chain paged_world pl key None [first_page, second_page]"
proof (rule page_chain.next_page)
  show "yt_playlist_items paged_world pl key (if truthy_opt None then None else None)
          = Response 200 [] first_page"
    by (simp add: paged_world_def quiet_world_def)
  show "truthy_opt (pg_nextPageToken first_page)"
    by (simp add: first_page_def truthy_def)
  show "page_chain paged_world pl key (pg_nextPageToken first_page) [second_page]"
  proof (rule page_chain.last_page)
    show "yt_playlist_items paged_world pl key
            (if truthy_opt (pg_nextPageToken first_page) then pg_nextPageToken first_page else None)
          = Response 200 [] second_page"
      by (simp add: paged_world_def quiet_world_def first_page_def truthy_def)
    show "\<not> truthy_opt (pg_nextPageToken second_page)"
      by (simp add: second_page_def)
  qed
qed

theorem after_date_filter_strict_witness:
  "get_video_ids_from_playlist ''PL1'' ''key'' (Some ''UC1'') (Some 100) None paged_world
     = Some (Inr [\<lparr>v_id = ''a'', v_title = ''Title a'', v_channel = ''Chan'',
                    v_channel_id = Some ''UC1'', v_date = Some 101\<rparr>], 2)
   \<and> map_option fst
        (get_video_ids_from_playlist ''PL1'' ''key'' (Some ''UC1'') (Some 98) (Some (int 2)) paged_world)
     = Some (Inr [\<lparr>v_id = ''a'', v_title = ''Title a'', v_channel = ''Chan'',
                    v_channel_id = Some ''UC1'', v_date = Some 101\<rparr>,
                  \<lparr>v_id = ''b'', v_title = ''Title b'', v_channel = ''Chan'',
                    v_channel_id = Some ''UC1'', v_date = Some 100\<rparr>])"
proof -
  have 1: "get_video_ids_from_playlist ''PL1'' ''key'' (Some ''UC1'') (Some 100) None paged_world
     = Some (Inr [\<lparr>v_id = ''a'', v_title = ''Title a'', v_channel = ''Chan'',
                    v_channel_id = Some ''UC1'', v_date = Some 101\<rparr>], 2)"
    using after_date_filter_strict [OF paged_chain, of None "''PL1''" "''key''" "Some ''UC1''" 100 1]
    by (simp add: first_page_def second_page_def sample_item_def video_of_item_def truthy_def)
  have 2: "map_option fst
        (get_video_ids_from_playlist ''PL1'' ''key'' (Some ''UC1'') (Some 98) (Some (int 2)) paged_world)
     = Some (Inr [\<lparr>v_id = ''a'', v_title = ''Title a'', v_channel = ''Chan'',
                    v_channel_id = Some ''UC1'', v_date = Some 101\<rparr>,
                  \<lparr>v_id = ''b'', v_title = ''Title b'', v_channel = ''Chan'',
                    v_channel_id = Some ''UC1'', v_date = Some 100\<rparr>])"
    using after_date_filter_strict [OF paged_chain, of None "''PL1''" "''key''" "Some ''UC1''" 98 2]
    by (simp add: first_page_def second_page_def sample_item_def video_of_item_def truthy_def)
  show ?thesis using 1 2 by blast
qed

text \<open>
  Claim C7. For every positive limit \<open>N\<close>, \<open>get_video_ids_from_playlist\<close> returns the first
  \<open>N\<close> items that pass the date filter, exactly \<open>min N\<close> of their number, and it requests
  a page only while fewer than \<open>N\<close> such items have been collected: no page is requested
  once \<open>N\<close> are there.
\<close>

theorem limit_truncates_and_stops:
  assumes "page_chain w playlist_id api_key None pages" and "0 < N"
  shows "get_video_ids_from_playlist playlist_id api_key channel_id after_date (Some N) w
           = Some (Inr (take (nat N) (candidates channel_id after_date pages)),
                   pages_needed after_date (nat N) pages)
       \<and> length (take (nat N) (candidates channel_id after_date pages))
           = min (nat N) (length (filter (passes_filter after_date) (concat (map pg_items pages))))
       \<and> pages_needed after_date (nat N) pages \<le> length pages
       \<and> length (filter (passes_filter after_date)
                   (concat (map pg_items (take (pages_needed after_date (nat N) pages - 1) pages))))
           < nat N"
proof -
  have n: "0 < nat N" "int (nat N) = N"
    using assms(2) by simp_all
  have "get_video_ids_from_playlist playlist_id api_key channel_id after_date (Some (int (nat N))) w
           = Some (Inr (take (nat N) (candidates channel_id after_date pages)),
                   pages_needed after_date (nat N) pages)"
    using loop_limited [OF assms(1), of "[]" "nat N" channel_id after_date 0] n(1)
    by (simp add: get_video_ids_from_playlist_def)
  then have 1: "get_video_ids_from_playlist playlist_id api_key channel_id after_date (Some N) w
           = Some (Inr (take (nat N) (candidates channel_id after_date pages)),
                   pages_needed after_date (nat N) pages)"
    by (simp only: n(2))
  have 2: "length (take (nat N) (candidates channel_id after_date pages))
           = min (nat N) (length (filter (passes_filter after_date) (concat (map pg_items pages))))"
    by (simp add: candidates_length min.commute)
  show ?thesis
    using 1 2 pages_needed_le [of after_date "nat N" pages]
      pages_needed_minimal [OF n(1), of after_date pages]
    by blast
qed

theorem limit_truncates_and_stops_witness:
  "get_video_ids_from_playlist ''PL1'' ''key'' (Some ''UC1'') None (Some 1) paged_world
     = Some (Inr [\<lparr>v_id = ''a'', v_title = ''Title a'', v_channel = ''Chan'',
                    v_channel_id = Some ''UC1'', v_date = Some 101\<rparr>], 1)
   \<and> length (concat (map pg_items [first_page, second_page])) = 3"
proof -
  have "get_video_ids_from_playlist ''PL1'' ''key'' (Some ''UC1'') None (Some 1) paged_world
     = Some (Inr [\<lparr>v_id = ''a'', v_title = ''Title a'', v_channel = ''Chan'',
                    v_channel_id = Some ''UC1'', v_date = Some 101\<rparr>], 1)"
    using limit_truncates_and_stops [OF paged_chain, of 1 "''PL1''" "''key''" "Some ''UC1''" None]
    by (simp add: candidates_def first_page_def second_page_def sample_item_def video_of_item_def
          passes_filter_def truthy_def)
  then show ?thesis
    by (simp add: first_page_def second_page_def)
qed

subsection \<open>A download that goes through\<close>

lemma select_world:
  "snd (select_transcript tlist w) = w\<lparr>w_log := w_log w @ map Tier (tiers_tried tlist)\<rparr>"
  by (auto simp: select_transcript_def tiers_tried_def emit_def Let_def
           split: option.splits list.splits sum.splits)

lemma select_pick: "fst (select_transcript tlist w) = fst (select_transcript tlist w')"
  by (simp add: select_transcript_def Let_def split: option.splits list.splits sum.splits)

lemma check_same:
  "gh_search w' = gh_search w \<Longrightarrow> fst (check_transcript_exists v w') = fst (check_transcript_exists v w)"
  by (simp add: check_transcript_exists_def Let_def split: response.splits)

lemma save_succeeds:
  assumes c: "\<not> fst (check_transcript_exists v w)"
    and a: "storage_accepts w (save_path ch v t)"
  shows "save_transcript ch v t body (Some md) w
           = (Inr (SaveOk (save_path ch v t) (gh_html_url w (request_path (save_path ch v t)))),
              (emit (PutContents (save_path ch v t) (document ch v t body md w))
                 (emit (SearchCode v) w))
                \<lparr>gh_files := (gh_files w)(request_path (save_path ch v t)
                                 \<mapsto> document ch v t body md w)\<rparr>)"
proof -
  let ?p = "save_path ch v t"
  have chk: "check_transcript_exists v w = (False, emit (SearchCode v) w)"
    using c check_world [of v w] by (metis prod.collapse)
  show ?thesis
  proof (cases "gh_files w (request_path ?p)")
    case None
    then show ?thesis using a
      by (simp add: save_transcript_def chk get_file_sha_def github_get_def github_put_def
            storage_accepts_def Let_def)
  next
    case (Some old)
    then show ?thesis using a
      by (simp add: save_transcript_def chk get_file_sha_def github_get_def github_put_def
            storage_accepts_def Let_def)
  qed
qed


lemma download_stores:
  assumes c: "\<not> fst (check_transcript_exists v w)"
    and lst: "ta_list w v = Inr tlist"
    and sel: "fst (select_transcript tlist w) = Picked tr ty"
    and ne: "tr \<noteq> []"
    and a: "storage_accepts w (save_path (or_else cn ''Unknown_Channel'') v title)"
  shows "download_transcript v title cn cid pub w
           = ((True, gh_html_url w (request_path (save_path (or_else cn ''Unknown_Channel'') v title))),
              w\<lparr>gh_files := (gh_files w)
                   (request_path (save_path (or_else cn ''Unknown_Channel'') v title)
                      \<mapsto> document (or_else cn ''Unknown_Channel'') v title
                           (join [CHR 0x0A] (map sn_text tr)) (metadata_of tr ty cid pub) w),
                w_log := w_log w @ [DownloadTranscript v title, SearchCode v]
                   @ map Tier (tiers_tried tlist)
                   @ [SearchCode v,
                      PutContents (save_path (or_else cn ''Unknown_Channel'') v title)
                        (document (or_else cn ''Unknown_Channel'') v title
                           (join [CHR 0x0A] (map sn_text tr)) (metadata_of tr ty cid pub) w)]\<rparr>)"
proof -
  let ?ch = "or_else cn ''Unknown_Channel''"
  let ?p = "save_path ?ch v title"
  let ?body = "join [CHR 0x0A] (map sn_text tr)"
  let ?md = "metadata_of tr ty cid pub"
  let ?w0 = "emit (DownloadTranscript v title) w"
  let ?w1 = "emit (SearchCode v) ?w0"
  let ?w2 = "?w1\<lparr>w_log := w_log ?w1 @ map Tier (tiers_tried tlist)\<rparr>"
  have chk: "check_transcript_exists v ?w0 = (False, ?w1)"
  proof -
    have "fst (check_transcript_exists v ?w0) = fst (check_transcript_exists v w)"
      by (rule check_same) simp
    then show ?thesis
      using c check_world [of v ?w0] by (metis prod.collapse)
  qed
  have sel1: "select_transcript tlist ?w1 = (Picked tr ty, ?w2)"
    using sel select_pick [of tlist ?w1 w] select_world [of tlist ?w1]
    by (metis prod.collapse)
  have c2: "\<not> fst (check_transcript_exists v ?w2)"
  proof -
    have "fst (check_transcript_exists v ?w2) = fst (check_transcript_exists v w)"
      by (rule check_same) simp
    then show ?thesis using c by simp
  qed
  have a2: "storage_accepts ?w2 ?p"
    using a by (simp add: storage_accepts_def split: option.splits)
  have doc: "document ?ch v title ?body ?md ?w2 = document ?ch v title ?body ?md w"
    by (simp add: document_def)
  have sv: "save_transcript ?ch v title ?body (Some ?md) ?w2
      = (Inr (SaveOk ?p (gh_html_url w (request_path ?p))),
         (emit (PutContents ?p (document ?ch v title ?body ?md w)) (emit (SearchCode v) ?w2))
           \<lparr>gh_files := (gh_files w)(request_path ?p \<mapsto> document ?ch v title ?body ?md w)\<rparr>)"
    using save_succeeds [OF c2 a2, of ?body ?md] unfolding doc by simp
  have "download_transcript v title cn cid pub w
      = ((True, gh_html_url w (request_path ?p)),
         (emit (PutContents ?p (document ?ch v title ?body ?md w)) (emit (SearchCode v) ?w2))
           \<lparr>gh_files := (gh_files w)(request_path ?p \<mapsto> document ?ch v title ?body ?md w)\<rparr>)"
    using lst ne sv
    by (simp add: download_transcript_def chk sel1 Let_def metadata_of_def)
  then show ?thesis
    by (simp add: emit_def)
qed


lemma fetchableD:
  assumes "fetchable w v tr ty"
  obtains tlist where "ta_list w v = Inr tlist" and "fst (select_transcript tlist w) = Picked tr ty"
    and "tr \<noteq> []"
  using assms by (auto simp: fetchable_def split: sum.splits)

lemma download_stores_fetchable:
  assumes c: "\<not> fst (check_transcript_exists v w)"
    and f: "fetchable w v tr ty"
    and a: "storage_accepts w (save_path (or_else cn ''Unknown_Channel'') v title)"
  shows "fst (download_transcript v title cn cid pub w)
           = (True, gh_html_url w (request_path (save_path (or_else cn ''Unknown_Channel'') v title)))"
    and "gh_files (snd (download_transcript v title cn cid pub w))
           (request_path (save_path (or_else cn ''Unknown_Channel'') v title))
           = Some (document (or_else cn ''Unknown_Channel'') v title
                     (join [CHR 0x0A] (map sn_text tr)) (metadata_of tr ty cid pub) w)"
    and "PutContents (save_path (or_else cn ''Unknown_Channel'') v title)
           (document (or_else cn ''Unknown_Channel'') v title
              (join [CHR 0x0A] (map sn_text tr)) (metadata_of tr ty cid pub) w)
         \<in> set (w_log (snd (download_transcript v title cn cid pub w)))"
proof -
  from f obtain tlist where l: "ta_list w v = Inr tlist"
    and s: "fst (select_transcript tlist w) = Picked tr ty" and n: "tr \<noteq> []"
    by (rule fetchableD)
  note eq = download_stores [OF c l s n a, of cid pub]
  show "fst (download_transcript v title cn cid pub w)
           = (True, gh_html_url w (request_path (save_path (or_else cn ''Unknown_Channel'') v title)))"
    by (simp add: eq)
  show "gh_files (snd (download_transcript v title cn cid pub w))
           (request_path (save_path (or_else cn ''Unknown_Channel'') v title))
           = Some (document (or_else cn ''Unknown_Channel'') v title
                     (join [CHR 0x0A] (map sn_text tr)) (metadata_of tr ty cid pub) w)"
    by (simp add: eq)
  show "PutContents (save_path (or_else cn ''Unknown_Channel'') v title)
           (document (or_else cn ''Unknown_Channel'') v title
              (join [CHR 0x0A] (map sn_text tr)) (metadata_of tr ty cid pub) w)
         \<in> set (w_log (snd (download_transcript v title cn cid pub w)))"
    by (simp add: eq)
qed

lemma probe_fails_absent: "probe_fails w v \<Longrightarrow> \<not> fst (check_transcript_exists v w)"
  by (simp add: probe_fails_check)

lemma probe_fails_overwrites:
  assumes pf: "probe_fails w v" and a: "storage_accepts w (save_path ch v t)"
  shows "fst (save_transcript ch v t body (Some md) w)
           = Inr (SaveOk (save_path ch v t) (gh_html_url w (request_path (save_path ch v t))))"
    and "gh_files (snd (save_transcript ch v t body (Some md) w)) (request_path (save_path ch v t))
           = Some (document ch v t body md w)"
  using save_succeeds [OF probe_fails_absent [OF pf] a, of body md] by simp_all

text \<open>
  Claim C10. Whenever the existence probe's search request raises or answers with a
  status other than 200, \<open>check_transcript_exists\<close> returns \<open>False\<close>; so neither the
  pre-fetch check of \<open>download_transcript\<close> nor the re-check of \<open>save_transcript\<close> reports a
  duplicate. Where the contents requests go through, \<open>save_transcript\<close> writes the
  document, replacing a record already stored under that path; and \<open>download_transcript\<close>,
  for a video with a fetchable transcript, goes on to fetch and save it, returns success
  and replaces the stored record.
\<close>

theorem failed_probe_treated_as_absent:
  assumes "probe_fails w video_id"
  shows "fst (check_transcript_exists video_id w) = False
    \<and> fst (download_transcript video_id title channel_name channel_id published_at w)
          \<noteq> (False, duplicate_message)
    \<and> fst (save_transcript channel video_id title body (Some md) w) \<noteq> Inr SaveDuplicate
    \<and> (storage_accepts w (save_path channel video_id title)
         \<longrightarrow> fst (save_transcript channel video_id title body (Some md) w)
               = Inr (SaveOk (save_path channel video_id title)
                        (gh_html_url w (request_path (save_path channel video_id title))))
           \<and> gh_files (snd (save_transcript channel video_id title body (Some md) w))
                 (request_path (save_path channel video_id title))
               = Some (document channel video_id title body md w))
    \<and> (fetchable w video_id tr ty
         \<and> storage_accepts w (save_path (or_else channel_name ''Unknown_Channel'') video_id title)
         \<longrightarrow> fst (download_transcript video_id title channel_name channel_id published_at w)
               = (True, gh_html_url w (request_path
                    (save_path (or_else channel_name ''Unknown_Channel'') video_id title)))
           \<and> gh_files (snd (download_transcript video_id title channel_name channel_id published_at w))
                 (request_path (save_path (or_else channel_name ''Unknown_Channel'') video_id title))
               = Some (document (or_else channel_name ''Unknown_Channel'') video_id title
                         (join [CHR 0x0A] (map sn_text tr))
                         (metadata_of tr ty channel_id published_at) w))"
proof -
  have 1: "fst (check_transcript_exists video_id w) = False"
    by (simp add: probe_fails_check [OF assms])
  have 2: "fst (download_transcript video_id title channel_name channel_id published_at w)
          \<noteq> (False, duplicate_message)"
    by (rule probe_fails_download [OF assms])
  have 3: "fst (save_transcript channel video_id title body (Some md) w) \<noteq> Inr SaveDuplicate"
    by (rule probe_fails_save [OF assms])
  show ?thesis
    using 1 2 3 probe_fails_overwrites [OF assms, of channel title body md]
      download_stores_fetchable(1,2) [OF probe_fails_absent [OF assms],
        of tr ty channel_name title channel_id published_at]
    by blast
qed

lemma outage_fields [simp]:
  "gh_files outage_world = [''channels/Chan/abc_My_Title.json'' \<mapsto> old_document]"
  "gh_search outage_world = (\<lambda>vid. Raises ''connection timed out'')"
  "ta_list outage_world = (\<lambda>vid. Inr \<lparr>tl_manual = [], tl_generated = [generated_en]\<rparr>)"
  "gh_get_fault outage_world = (\<lambda>p. None)"
  "gh_put_fault outage_world = (\<lambda>p. None)"
  "gh_blob_sha outage_world = (\<lambda>f. ''3b18e512dba79e4c8300dd08aeb37f8e728b8dad'')"
  "gh_html_url outage_world = (\<lambda>p. ''https://host/blob/main/'' @ p)"
  "w_now outage_world = ''2024-05-01T00:00:00''"
  by (simp_all add: outage_world_def quiet_world_def)

lemma generated_pick:
  "fst (select_transcript \<lparr>tl_manual = [], tl_generated = [generated_en]\<rparr> w)
     = Picked [\<lparr>sn_text = ''hello'', sn_start = 0\<rparr>, \<lparr>sn_text = ''world'', sn_start = 2\<rparr>]
         ''auto-generated''"
  by (simp add: select_transcript_def attempt_def find_manually_created_transcript_def
        find_generated_transcript_def generated_en_def Let_def)

theorem failed_probe_overwrites_existing_record:
  "probe_fails outage_world ''abc''
   \<and> gh_files outage_world ''channels/Chan/abc_My_Title.json'' = Some old_document
   \<and> st_transcript old_document = ''old text''
   \<and> fst (check_transcript_exists ''abc'' outage_world) = False
   \<and> fst (save_transcript ''Chan'' ''abc'' ''My Title'' ''new text'' (Some sample_metadata) outage_world)
        = Inr (SaveOk ''channels/Chan/abc_My_Title.json''
                 ''https://host/blob/main/channels/Chan/abc_My_Title.json'')
   \<and> map_option st_transcript
         (gh_files (snd (save_transcript ''Chan'' ''abc'' ''My Title'' ''new text''
                           (Some sample_metadata) outage_world))
            ''channels/Chan/abc_My_Title.json'')
        = Some ''new text''
   \<and> fst (download_transcript ''abc'' ''My Title'' (Some ''Chan'') None None outage_world)
        = (True, ''https://host/blob/main/channels/Chan/abc_My_Title.json'')
   \<and> map_option st_transcript
         (gh_files (snd (download_transcript ''abc'' ''My Title'' (Some ''Chan'') None None outage_world))
            ''channels/Chan/abc_My_Title.json'')
        = Some (''hello'' @ [CHR 0x0A] @ ''world'')"
proof -
  let ?tr = "[\<lparr>sn_text = ''hello'', sn_start = 0\<rparr>, \<lparr>sn_text = ''world'', sn_start = 2\<rparr>]"
  have pf: "probe_fails outage_world ''abc''"
    by (simp add: probe_fails_def)
  have path: "save_path ''Chan'' ''abc'' ''My Title'' = ''channels/Chan/abc_My_Title.json''"
    by (simp add: save_path_def sanitize_name_def invalid_chars_def)
  have rp: "request_path ''channels/Chan/abc_My_Title.json'' = ''channels/Chan/abc_My_Title.json''"
    by (simp add: request_path_def)
  have acc: "storage_accepts outage_world (save_path ''Chan'' ''abc'' ''My Title'')"
    by (simp add: storage_accepts_def path rp truthy_def)
  have acc2: "storage_accepts outage_world
                (save_path (or_else (Some ''Chan'') ''Unknown_Channel'') ''abc'' ''My Title'')"
    using acc by (simp add: truthy_def)
  have fe: "fetchable outage_world ''abc'' ?tr ''auto-generated''"
    by (simp add: fetchable_def generated_pick)
  have old: "gh_files outage_world ''channels/Chan/abc_My_Title.json'' = Some old_document"
    by simp
  have oldtext: "st_transcript old_document = ''old text''"
    by (simp add: old_document_def)
  have doc: "st_transcript (document ''Chan'' ''abc'' ''My Title'' ''new text'' sample_metadata outage_world)
      = ''new text''"
    by (simp add: document_def)
  have doc2: "st_transcript (document (or_else (Some ''Chan'') ''Unknown_Channel'') ''abc'' ''My Title''
        (join [CHR 0x0A] (map sn_text ?tr)) (metadata_of ?tr ''auto-generated'' None None) outage_world)
      = ''hello'' @ [CHR 0x0A] @ ''world''"
    by (simp add: document_def)
  note th = failed_probe_treated_as_absent [OF pf, of "''My Title''" "Some ''Chan''" None None
      "''Chan''" "''new text''" sample_metadata ?tr "''auto-generated''"]
  have a: "fst (check_transcript_exists ''abc'' outage_world) = False"
    using th by blast
  have b: "fst (save_transcript ''Chan'' ''abc'' ''My Title'' ''new text'' (Some sample_metadata) outage_world)
        = Inr (SaveOk (save_path ''Chan'' ''abc'' ''My Title'')
                 (gh_html_url outage_world (request_path (save_path ''Chan'' ''abc'' ''My Title''))))"
    and c: "gh_files (snd (save_transcript ''Chan'' ''abc'' ''My Title'' ''new text''
                           (Some sample_metadata) outage_world))
              (request_path (save_path ''Chan'' ''abc'' ''My Title''))
        = Some (document ''Chan'' ''abc'' ''My Title'' ''new text'' sample_metadata outage_world)"
    using th acc by blast+
  have d: "fst (download_transcript ''abc'' ''My Title'' (Some ''Chan'') None None outage_world)
        = (True, gh_html_url outage_world (request_path
             (save_path (or_else (Some ''Chan'') ''Unknown_Channel'') ''abc'' ''My Title'')))"
    and e: "gh_files (snd (download_transcript ''abc'' ''My Title'' (Some ''Chan'') None None outage_world))
              (request_path (save_path (or_else (Some ''Chan'') ''Unknown_Channel'') ''abc'' ''My Title''))
        = Some (document (or_else (Some ''Chan'') ''Unknown_Channel'') ''abc'' ''My Title''
                  (join [CHR 0x0A] (map sn_text ?tr)) (metadata_of ?tr ''auto-generated'' None None)
                  outage_world)"
    using th fe acc2 by blast+
  show ?thesis
    using pf old oldtext a b c d e doc doc2
    by (simp add: path rp truthy_def)
qed

subsection \<open>The tiers of the transcript selection\<close>

lemma download_generated_tiers:
  assumes m: "find_manually_created_transcript tlist [''en''] = None"
    and g: "find_generated_transcript tlist [''en''] = Some t"
    and f: "t_fetch t = Inr snippets"
    and l: "ta_list w video_id = Inr tlist"
    and c: "\<not> fst (check_transcript_exists video_id w)"
  shows "filter is_tier (w_log (snd (download_transcript video_id title cn cid pub w)))
           = filter is_tier (w_log w) @ [Tier 1, Tier 2]"
proof -
  let ?w0 = "emit (DownloadTranscript video_id title) w"
  let ?w1 = "emit (SearchCode video_id) ?w0"
  let ?w2 = "emit (Tier 2) (emit (Tier 1) ?w1)"
  have c0: "fst (check_transcript_exists video_id ?w0) = False"
    using c by (auto simp: check_transcript_exists_def Let_def split: response.splits if_splits)
  have chk: "check_transcript_exists video_id ?w0 = (False, ?w1)"
    using c0 check_world [of video_id ?w0] by (metis prod.collapse)
  have sel: "select_transcript tlist ?w1 = (Picked snippets ''auto-generated'', ?w2)"
    by (rule select_generated [OF m g f])
  have base: "filter is_tier (w_log ?w2) = filter is_tier (w_log w) @ [Tier 1, Tier 2]"
    by simp
  show ?thesis
  proof (cases "snippets = []")
    case True
    then show ?thesis
      using l by (simp add: download_transcript_def chk sel)
  next
    case False
    let ?save = "save_transcript (or_else cn ''Unknown_Channel'') video_id title
          (join [CHR 0x0A] (map sn_text snippets))
          (Some \<lparr>md_transcript_type = ''auto-generated'', md_duration = sn_start (last snippets),
                 md_channel_id = or_else cid [], md_published_at = pub\<rparr>) ?w2"
    obtain r w3 where sv: "?save = (r, w3)"
      by (cases ?save)
    obtain es where "w_log (snd ?save) = w_log ?w2 @ es" and "list_all storage_event es"
      using save_log by blast
    then have "filter is_tier (w_log w3) = filter is_tier (w_log w) @ [Tier 1, Tier 2]"
      using storage_not_tier [of es] sv by simp
    then show ?thesis
      using False l sv
      by (auto simp: download_transcript_def chk sel Let_def
               split: sum.splits save_result.splits)
  qed
qed


text \<open>
  Claim C5, as amended. For every video whose transcript listing has no manually created
  English transcript but has an auto-generated English one whose fetch succeeds,
  \<open>download_transcript\<close> never tries the third or the fourth tier: it tries the first two,
  or none when the video is reported as already stored. Where the video is not reported
  as stored, the transcript fetched is not empty and the contents requests go through, it
  saves that transcript tagged \<open>auto-generated\<close> and returns success.
\<close>

theorem generated_tier_selected:
  assumes lst: "ta_list w video_id = Inr tlist"
    and m: "find_manually_created_transcript tlist [''en''] = None"
    and g: "find_generated_transcript tlist [''en''] = Some t"
    and f: "t_fetch t = Inr snippets"
  shows "filter is_tier (w_log (snd (download_transcript video_id title cn cid pub w)))
           = filter is_tier (w_log w)
             @ (if fst (check_transcript_exists video_id w) then [] else [Tier 1, Tier 2])
     \<and> (\<not> fst (check_transcript_exists video_id w) \<and> snippets \<noteq> []
          \<and> storage_accepts w (save_path (or_else cn ''Unknown_Channel'') video_id title)
          \<longrightarrow> fst (download_transcript video_id title cn cid pub w)
                = (True, gh_html_url w (request_path
                     (save_path (or_else cn ''Unknown_Channel'') video_id title)))
            \<and> gh_files (snd (download_transcript video_id title cn cid pub w))
                  (request_path (save_path (or_else cn ''Unknown_Channel'') video_id title))
                = Some (document (or_else cn ''Unknown_Channel'') video_id title
                          (join [CHR 0x0A] (map sn_text snippets))
                          (metadata_of snippets ''auto-generated'' cid pub) w))"
proof -
  have tiers: "filter is_tier (w_log (snd (download_transcript video_id title cn cid pub w)))
           = filter is_tier (w_log w)
             @ (if fst (check_transcript_exists video_id w) then [] else [Tier 1, Tier 2])"
  proof (cases "fst (check_transcript_exists video_id w)")
    case True
    let ?w0 = "emit (DownloadTranscript video_id title) w"
    have "fst (check_transcript_exists video_id ?w0) = fst (check_transcript_exists video_id w)"
      by (rule check_same) simp
    then have "check_transcript_exists video_id ?w0 = (True, emit (SearchCode video_id) ?w0)"
      using True check_world [of video_id ?w0] by (metis prod.collapse)
    then show ?thesis using True
      by (simp add: download_transcript_def)
  next
    case False
    then show ?thesis
      using download_generated_tiers [OF m g f lst False, of title cn cid pub] by simp
  qed
  have sel: "fst (select_transcript tlist w) = Picked snippets ''auto-generated''"
    using select_generated [OF m g f, of w] by simp
  have "fetchable w video_id snippets ''auto-generated''" if "snippets \<noteq> []"
    using lst sel that by (simp add: fetchable_def)
  then show ?thesis
    using tiers download_stores_fetchable(1,2) [of video_id w snippets "''auto-generated''" cn title cid pub]
    by blast
qed

lemma generated_fields [simp]:
  "ta_list generated_world = (\<lambda>vid. Inr \<lparr>tl_manual = [], tl_generated = [generated_en]\<rparr>)"
  "gh_search generated_world = (\<lambda>vid. Response 200 [] [])"
  "gh_files generated_world = Map.empty"
  "gh_get_fault generated_world = (\<lambda>p. None)"
  "gh_put_fault generated_world = (\<lambda>p. None)"
  "gh_html_url generated_world = (\<lambda>p. ''https://host/blob/main/'' @ p)"
  "w_now generated_world = ''2024-05-01T00:00:00''"
  "w_api_key generated_world = Some ''key''"
  "w_log generated_world = []"
  by (simp_all add: generated_world_def quiet_world_def)

theorem generated_tier_selected_witness:
  "filter is_tier (w_log (snd (download_transcript ''v1'' ''Talk'' None None None generated_world)))
        = [Tier 1, Tier 2]
   \<and> fst (download_transcript ''v1'' ''Talk'' None None None generated_world)
        = (True, ''https://host/blob/main/channels/Unknown_Channel/v1_Talk.json'')
   \<and> map_option (\<lambda>d. (st_transcript d, md_transcript_type (st_metadata d)))
         (gh_files (snd (download_transcript ''v1'' ''Talk'' None None None generated_world))
            ''channels/Unknown_Channel/v1_Talk.json'')
        = Some (''hello'' @ [CHR 0x0A] @ ''world'', ''auto-generated'')"
proof -
  let ?tl = "\<lparr>tl_manual = [], tl_generated = [generated_en]\<rparr>"
  let ?tr = "[\<lparr>sn_text = ''hello'', sn_start = 0\<rparr>, \<lparr>sn_text = ''world'', sn_start = 2\<rparr>]"
  have l: "ta_list generated_world ''v1'' = Inr ?tl"
    by simp
  have m: "find_manually_created_transcript ?tl [''en''] = None"
    by (simp add: find_manually_created_transcript_def)
  have g: "find_generated_transcript ?tl [''en''] = Some generated_en"
    by (simp add: find_generated_transcript_def generated_en_def)
  have f: "t_fetch generated_en = Inr ?tr"
    by (simp add: generated_en_def)
  have c: "\<not> fst (check_transcript_exists ''v1'' generated_world)"
    by (simp add: check_transcript_exists_def)
  have path: "save_path (or_else None ''Unknown_Channel'') ''v1'' ''Talk''
                = ''channels/Unknown_Channel/v1_Talk.json''"
    by (simp add: save_path_def sanitize_name_def invalid_chars_def)
  have rp: "request_path ''channels/Unknown_Channel/v1_Talk.json''
              = ''channels/Unknown_Channel/v1_Talk.json''"
    by (simp add: request_path_def)
  have acc: "storage_accepts generated_world (save_path (or_else None ''Unknown_Channel'') ''v1'' ''Talk'')"
    by (simp add: storage_accepts_def)
  have doc: "(\<lambda>d. (st_transcript d, md_transcript_type (st_metadata d)))
        (document (or_else None ''Unknown_Channel'') ''v1'' ''Talk''
           (join [CHR 0x0A] (map sn_text ?tr)) (metadata_of ?tr ''auto-generated'' None None)
           generated_world)
      = (''hello'' @ [CHR 0x0A] @ ''world'', ''auto-generated'')"
    by (simp add: document_def metadata_of_def)
  note th = generated_tier_selected [OF l m g f, of "''Talk''" None None None]
  have a: "filter is_tier (w_log (snd (download_transcript ''v1'' ''Talk'' None None None generated_world)))
        = [Tier 1, Tier 2]"
    using th c by simp
  have b: "fst (download_transcript ''v1'' ''Talk'' None None None generated_world)
        = (True, gh_html_url generated_world (request_path
             (save_path (or_else None ''Unknown_Channel'') ''v1'' ''Talk'')))"
    and d: "gh_files (snd (download_transcript ''v1'' ''Talk'' None None None generated_world))
              (request_path (save_path (or_else None ''Unknown_Channel'') ''v1'' ''Talk''))
        = Some (document (or_else None ''Unknown_Channel'') ''v1'' ''Talk''
                  (join [CHR 0x0A] (map sn_text ?tr)) (metadata_of ?tr ''auto-generated'' None None)
                  generated_world)"
    using th c acc by blast+
  show ?thesis
    using a b d doc unfolding path rp by simp
qed

lemma flaky_fields [simp]:
  "ta_list flaky_world = (\<lambda>vid. Inr \<lparr>tl_manual = [], tl_generated = [flaky_en]\<rparr>)"
  "gh_search flaky_world = (\<lambda>vid. Response 200 [] [])"
  "w_log flaky_world = []"
  by (simp_all add: flaky_world_def quiet_world_def)

theorem failed_generated_fetch_tries_later_tiers:
  "find_manually_created_transcript \<lparr>tl_manual = [], tl_generated = [flaky_en]\<rparr> [''en''] = None
   \<and> find_generated_transcript \<lparr>tl_manual = [], tl_generated = [flaky_en]\<rparr> [''en'']
        = Some flaky_en
   \<and> fst (download_transcript ''v1'' ''Talk'' None None None flaky_world)
        = (False, ''Cannot fetch transcript: connection reset'')
   \<and> filter is_tier (w_log (snd (download_transcript ''v1'' ''Talk'' None None None flaky_world)))
        = [Tier 1, Tier 2, Tier 3, Tier 4]"
  by (simp add: find_manually_created_transcript_def find_generated_transcript_def
        find_transcript_def available_transcripts_def flaky_en_def
        download_transcript_def check_transcript_exists_def select_transcript_def attempt_def Let_def)

subsection \<open>A run over explicit video ids\<close>

lemma read_delay_emit [simp]: "read_delay cfg (emit e w) = read_delay cfg w"
  by (simp add: read_delay_def split: delay_setting.splits)












section \<open>Properties of the scheduler\<close>

lemma unsupported_trigger:
  "\<not> supported frequency \<Longrightarrow> get_cron_trigger frequency = Inl (''Unsupported frequency: '' @ frequency)"
  by (simp add: supported_def get_cron_trigger_def)

lemma restore_jobs_raises:
  assumes "(k, j) \<in> set jobs" and "j_status j = ''active''" and "\<not> supported (j_frequency j)"
  shows "\<exists>e. restore_jobs jobs s = Inl e"
  using assms
proof (induction jobs arbitrary: s)
  case Nil
  then show ?case by simp
next
  case (Cons entry rest)
  obtain k' j' where entry: "entry = (k', j')" by (cases entry)
  show ?case
  proof (cases "entry = (k, j)")
    case True
    then show ?thesis
      using Cons.prems entry
      by (simp add: add_job_to_scheduler_def unsupported_trigger)
  next
    case False
    then have "(k, j) \<in> set rest" using Cons.prems(1) by simp
    then have "\<exists>e. restore_jobs rest s' = Inl e" for s'
      using Cons.IH Cons.prems(2,3) by blast
    then show ?thesis
      using entry by (auto split: sum.splits)
  qed
qed

lemma update_entry: "(k, v) \<in> set (AList.update k v al)"
  by (induction al) auto


text \<open>
  Claim C4. A call of \<open>add_scheduled_job\<close> with a frequency other than \<open>daily\<close>, \<open>weekly\<close>
  or \<open>monthly\<close> does not fail at creation time without a trace: the job is put into the
  job mapping and written to the jobs file before the frequency is looked at. On a started
  scheduler the call then returns the error \<open>Unsupported frequency\<close>, the job staying
  stored; on a scheduler that has not been started the frequency is never looked at, the
  call reports success, and the later \<open>start\<close> raises on the stored job.
\<close>

theorem unsupported_frequency_is_stored:
  assumes "\<not> supported frequency"
  shows "map_option j_frequency
           (map_of (sc_jobs (snd (add_scheduled_job name channels frequency start_date folder_prefix w s)))
              (generate_job_id name channels frequency w))
           = Some frequency
     \<and> (sc_disk_ok s \<longrightarrow>
           sc_file (snd (add_scheduled_job name channels frequency start_date folder_prefix w s))
             = Some (sc_jobs (snd (add_scheduled_job name channels frequency start_date folder_prefix w s))))
     \<and> (sc_running s \<longrightarrow>
           fst (add_scheduled_job name channels frequency start_date folder_prefix w s)
             = AddFailed (''Unsupported frequency: '' @ frequency))
     \<and> (\<not> sc_running s \<longrightarrow>
           fst (add_scheduled_job name channels frequency start_date folder_prefix w s)
             = AddOk (generate_job_id name channels frequency w)
                 (''Scheduled job '' @ [CHR 0x22] @ name @ [CHR 0x22] @ '' created'')
           \<and> (\<exists>e. start (snd (add_scheduled_job name channels frequency start_date folder_prefix w s))
                    = Inl e))"
proof -
  let ?id = "generate_job_id name channels frequency w"
  let ?job = "\<lparr>j_id = ?id, j_name = name, j_channels = channels,
                j_frequency = frequency, j_start_date = or_else start_date (w_today w),
                j_folder_prefix = folder_prefix, j_created_at = w_now w,
                j_last_run = None, j_status = ''active'', j_total_downloads = 0,
                j_last_error = None\<rparr>"
  let ?s1 = "save_jobs (s\<lparr>sc_jobs := AList.update ?id ?job (sc_jobs s)\<rparr>)"
  let ?add = "add_scheduled_job name channels frequency start_date folder_prefix w s"
  have s1: "sc_jobs ?s1 = AList.update ?id ?job (sc_jobs s)" "sc_running ?s1 = sc_running s"
      "sc_disk_ok s \<Longrightarrow> sc_file ?s1 = Some (sc_jobs ?s1)"
    by (simp_all add: save_jobs_def)
  have trig: "add_job_to_scheduler ?job s' = Inl (''Unsupported frequency: '' @ frequency)" for s'
    using assms by (simp add: add_job_to_scheduler_def unsupported_trigger)
  have stored: "map_option j_frequency (map_of (AList.update ?id ?job (sc_jobs s)) ?id) = Some frequency"
    by (simp add: update_conv')
  show ?thesis
  proof (cases "sc_running s")
    case True
    then have "?add = (AddFailed (''Unsupported frequency: '' @ frequency), ?s1)"
      using trig [of ?s1] s1(2) by (simp add: add_scheduled_job_def Let_def)
    then show ?thesis
      using True s1 stored by simp
  next
    case False
    then have add: "?add = (AddOk ?id (''Scheduled job '' @ [CHR 0x22] @ name @ [CHR 0x22] @ '' created''),
                     schedule_catchup_run ?job w ?s1)"
      using s1(2) by (simp add: add_scheduled_job_def Let_def)
    let ?s2 = "schedule_catchup_run ?job w ?s1"
    have s2: "sc_jobs ?s2 = AList.update ?id ?job (sc_jobs s)" "sc_running ?s2 = False"
        "sc_file ?s2 = sc_file ?s1"
      using False s1(1,2) by (simp_all add: schedule_catchup_run_def)
    have "\<exists>e. restore_jobs (sc_jobs ?s2) (?s2\<lparr>sc_running := True\<rparr>) = Inl e"
      unfolding s2(1)
      by (rule restore_jobs_raises [of ?id ?job]) (simp_all add: update_entry assms)
    then have "\<exists>e. start ?s2 = Inl e"
      using s2(2) by (simp add: start_def)
    then show ?thesis
      using False add s1 s2 stored by simp
  qed
qed

theorem unsupported_frequency_is_stored_witness:
  "fst (add_scheduled_job ''Nightly'' [''chan''] ''hourly'' None [] quiet_world idle_scheduler)
     = AddOk ''0123456789ab'' (''Scheduled job '' @ [CHR 0x22] @ ''Nightly'' @ [CHR 0x22] @ '' created'')
   \<and> map_option j_frequency
        (map_of (sc_jobs (snd (add_scheduled_job ''Nightly'' [''chan''] ''hourly'' None []
                                  quiet_world idle_scheduler))) ''0123456789ab'')
     = Some ''hourly''
   \<and> sc_file (snd (add_scheduled_job ''Nightly'' [''chan''] ''hourly'' None [] quiet_world idle_scheduler))
     = Some (sc_jobs (snd (add_scheduled_job ''Nightly'' [''chan''] ''hourly'' None []
                              quiet_world idle_scheduler)))
   \<and> fst (add_scheduled_job ''Nightly'' [''chan''] ''hourly'' None [] quiet_world started_scheduler)
     = AddFailed ''Unsupported frequency: hourly''
   \<and> map_option j_frequency
        (map_of (sc_jobs (snd (add_scheduled_job ''Nightly'' [''chan''] ''hourly'' None []
                                  quiet_world started_scheduler))) ''0123456789ab'')
     = Some ''hourly''"
proof -
  have u: "\<not> supported ''hourly''"
    by (simp add: supported_def)
  have id: "generate_job_id ''Nightly'' [''chan''] ''hourly'' quiet_world = ''0123456789ab''"
    by (simp add: generate_job_id_def quiet_world_def)
  have i: "\<not> sc_running idle_scheduler" "sc_disk_ok idle_scheduler"
    and r: "sc_running started_scheduler"
    by (simp_all add: idle_scheduler_def started_scheduler_def)
  note a = unsupported_frequency_is_stored [OF u, of "''Nightly''" "[''chan'']" None "[]"
      quiet_world idle_scheduler, unfolded id]
  note b = unsupported_frequency_is_stored [OF u, of "''Nightly''" "[''chan'']" None "[]"
      quiet_world started_scheduler, unfolded id]
  show ?thesis
    using a b i r by simp
qed

end
